theory Spec2Isabelle
  imports Complex_Main "HOL-Library.Log_Nat"
begin

section \<open>Python values, exceptions and arithmetic\<close>

text \<open>
  The script \<^verbatim>\<open>90d-Engagment.py\<close> is embedded function by function. An
  exception that leaves a function is a value \<open>Inl e\<close> of the result type; a normal
  return is \<open>Inr v\<close>. A loop that may run forever returns an \<open>option\<close>, with
  \<open>None\<close> for a run that never returns. What the script prints is not modelled.
\<close>

datatype py_exc = KeyError | ValueError | TypeError | OverflowError | ZeroDivisionError

type_synonym 'a result = "py_exc + 'a"

text \<open>Truth value of an optional string: \<open>None\<close> and the empty string are falsy.\<close>

definition truthy :: "string option \<Rightarrow> bool" where
  "truthy t = (case t of None \<Rightarrow> False | Some v \<Rightarrow> v \<noteq> [])"

subsection \<open>True division of integers and conversion of a float to an integer\<close>

text \<open>
  A finite double is represented by the rational number it denotes. \<open>a / b\<close> on
  Python integers is the exact quotient rounded once to the nearest double, ties to the
  even significand (53 bits, least exponent \<open>-1074\<close>); a quotient that rounds to
  \<open>2 ^ 1024\<close> or more raises OverflowError, a zero divisor raises ZeroDivisionError.
\<close>

definition pow2 :: "int \<Rightarrow> rat" where
  "pow2 e = (if 0 \<le> e then 2 ^ nat e else 1 / 2 ^ nat (- e))"

definition round_half_even :: "rat \<Rightarrow> int" where
  "round_half_even x =
     (let f = \<lfloor>x\<rfloor>; d = x - of_int f
      in if d < 1 / 2 then f
         else if 1 / 2 < d then f + 1
         else if even f then f else f + 1)"

text \<open>\<open>ilog2 a b\<close> is the integer \<open>p\<close> with \<open>2 ^ p \<le> a / b < 2 ^ (p + 1)\<close>, for positive \<open>a\<close> and \<open>b\<close>.\<close>

definition ilog2 :: "int \<Rightarrow> int \<Rightarrow> int" where
  "ilog2 a b =
     (let d = bitlen a - bitlen b
      in if pow2 d * of_int b \<le> of_int a then d else d - 1)"

definition double_exponent :: "int \<Rightarrow> int \<Rightarrow> int" where
  "double_exponent a b = max (ilog2 a b - 52) (- 1074)"

definition double_significand :: "int \<Rightarrow> int \<Rightarrow> int" where
  "double_significand a b =
     round_half_even (of_int a / of_int b / pow2 (double_exponent a b))"

definition py_truediv :: "int \<Rightarrow> int \<Rightarrow> rat result" where
  "py_truediv a b =
     (if b = 0 then Inl ZeroDivisionError
      else if a = 0 then Inr 0
      else
        let e = double_exponent \<bar>a\<bar> \<bar>b\<bar>;
            m = double_significand \<bar>a\<bar> \<bar>b\<bar>
        in if 1024 < bitlen m + e then Inl OverflowError
           else if (a < 0) = (b < 0) then Inr (of_int m * pow2 e)
           else Inr (- (of_int m * pow2 e)))"

text \<open>\<open>int(x)\<close> on a float truncates toward zero.\<close>

definition py_int_of_float :: "rat \<Rightarrow> int" where
  "py_int_of_float x = (if 0 \<le> x then \<lfloor>x\<rfloor> else \<lceil>x\<rceil>)"

section \<open>Data exchanged with the two services\<close>

text \<open>
  Payloads are typed as the two services document them; a key that a payload may lack is
  an \<open>option\<close>, and subscripting the missing key raises KeyError. A list that is read
  with \<^verbatim>\<open>.get(key, [])\<close> is a plain list: a missing key and an empty list behave alike.
\<close>

datatype 'a response = RequestException | Ok 'a

record airtable_record =
  rec_id :: string
  channel_id_field :: "string option"

record airtable_page =
  page_records :: "airtable_record list"
  page_offset :: "string option"

record related_playlists =
  uploads :: "string option"

record channel_details =
  relatedPlaylists :: "related_playlists option"

record channel_item =
  ch_contentDetails :: "channel_details option"

record playlist_details =
  videoPublishedAt :: "string option"
  videoId :: "string option"

record playlist_item =
  pl_contentDetails :: "playlist_details option"

record playlist_page =
  pl_items :: "playlist_item list"
  nextPageToken :: "string option"

record video_details =
  duration :: "string option"

record video_statistics =
  viewCount :: "string option"
  likeCount :: "string option"
  commentCount :: "string option"

record video_item =
  v_contentDetails :: "video_details option"
  statistics :: "video_statistics option"

text \<open>The three fields written to a subject record, in the order LGVPV90, LGLPV90, LGCPV90.\<close>

type_synonym fields = "int \<times> int \<times> int"

datatype request =
    ListRecords "string option"
  | GetChannel string
  | GetPlaylistItems string "string option"
  | GetVideos "string list"
  | PatchRecord string fields

text \<open>An event is a request that was issued and whether it succeeded.\<close>

type_synonym event = "request \<times> bool"

text \<open>
  \<open>dateutil\<close> may return a datetime without time zone; comparing it with the time-zone
  aware cutoff raises TypeError. Instants and durations are counted in microseconds.
\<close>

datatype datetime = Naive int | Aware int

datatype timedelta = Timedelta int

text \<open>
  Everything outside the script: the answers of the two services, which may depend on
  all requests issued so far, the three parsers the script calls, the environment
  variables and the cutoff computed when the module is loaded.
\<close>

record env =
  AIRTABLE_API_KEY :: "string option"
  AIRTABLE_BASE_ID :: "string option"
  YOUTUBE_API_KEY :: "string option"
  CUTOFF_DATE :: int
  airtable_get :: "event list \<Rightarrow> string option \<Rightarrow> airtable_page response"
  airtable_patch :: "event list \<Rightarrow> string \<Rightarrow> fields \<Rightarrow> unit response"
  channels_get :: "event list \<Rightarrow> string \<Rightarrow> channel_item list response"
  playlist_items_get :: "event list \<Rightarrow> string \<Rightarrow> string option \<Rightarrow> playlist_page response"
  videos_get :: "event list \<Rightarrow> string list \<Rightarrow> video_item list response"
  parser_parse :: "string \<Rightarrow> datetime result"
  parse_duration :: "string \<Rightarrow> timedelta result"
  int_of_str :: "string \<Rightarrow> int result"

text \<open>The mutable state: the global \<open>error_count\<close> and the requests issued so far.\<close>

record state =
  error_count :: nat
  trace :: "event list"

definition ERROR_LIMIT :: nat where
  "ERROR_LIMIT = 10"

definition issued :: "request \<Rightarrow> bool \<Rightarrow> state \<Rightarrow> state" where
  "issued r ok s = s\<lparr>trace := trace s @ [(r, ok)]\<rparr>"

definition count_error :: "state \<Rightarrow> state" where
  "count_error s = s\<lparr>error_count := error_count s + 1\<rparr>"

section \<open>The functions of the script\<close>

subsection \<open>\<open>get_airtable_records\<close>\<close>

partial_function (option) get_airtable_records_loop ::
  "env \<Rightarrow> airtable_record list \<Rightarrow> string option \<Rightarrow> state \<Rightarrow> (airtable_record list \<times> state) option"
where
  "get_airtable_records_loop w records offset s =
     (let params = (if truthy offset then offset else None)
      in case airtable_get w (trace s) params of
           RequestException \<Rightarrow> Some (records, issued (ListRecords params) False s)
         | Ok data \<Rightarrow>
             if \<not> truthy (page_offset data)
             then Some (records @ page_records data, issued (ListRecords params) True s)
             else get_airtable_records_loop w (records @ page_records data) (page_offset data)
                    (issued (ListRecords params) True s))"

declare get_airtable_records_loop.simps [code]

definition get_airtable_records :: "env \<Rightarrow> state \<Rightarrow> (airtable_record list \<times> state) option" where
  "get_airtable_records w s = get_airtable_records_loop w [] None s"

subsection \<open>\<open>get_uploads_playlist_id\<close>\<close>

definition uploads_of :: "channel_item \<Rightarrow> string result" where
  "uploads_of item =
     (case ch_contentDetails item of
        None \<Rightarrow> Inl KeyError
      | Some cd \<Rightarrow>
          (case relatedPlaylists cd of
             None \<Rightarrow> Inl KeyError
           | Some rp \<Rightarrow>
               (case uploads rp of None \<Rightarrow> Inl KeyError | Some u \<Rightarrow> Inr u)))"

definition get_uploads_playlist_id ::
  "env \<Rightarrow> string \<Rightarrow> state \<Rightarrow> string option result \<times> state" where
  "get_uploads_playlist_id w channel_id s =
     (case channels_get w (trace s) channel_id of
        RequestException \<Rightarrow> (Inr None, count_error (issued (GetChannel channel_id) False s))
      | Ok items \<Rightarrow>
          (case items of
             [] \<Rightarrow> (Inr None, issued (GetChannel channel_id) True s)
           | item # _ \<Rightarrow>
               (case uploads_of item of
                  Inl e \<Rightarrow> (Inl e, issued (GetChannel channel_id) True s)
                | Inr u \<Rightarrow> (Inr (Some u), issued (GetChannel channel_id) True s))))"

subsection \<open>\<open>get_recent_video_ids\<close>\<close>

definition datetime_ge_cutoff :: "datetime \<Rightarrow> int \<Rightarrow> bool result" where
  "datetime_ge_cutoff published_at cutoff =
     (case published_at of Naive t \<Rightarrow> Inl TypeError | Aware t \<Rightarrow> Inr (cutoff \<le> t))"

text \<open>
  The body of the \<^verbatim>\<open>try\<close> for one item: \<open>Inr (Some v)\<close> when the identifier \<open>v\<close> is
  appended, \<open>Inr None\<close> when the item is older than the cutoff.
\<close>

definition recent_item :: "env \<Rightarrow> playlist_item \<Rightarrow> string option result" where
  "recent_item w item =
     (case pl_contentDetails item of
        None \<Rightarrow> Inl KeyError
      | Some cd \<Rightarrow>
          (case videoPublishedAt cd of
             None \<Rightarrow> Inl KeyError
           | Some ts \<Rightarrow>
               (case parser_parse w ts of
                  Inl e \<Rightarrow> Inl e
                | Inr published_at \<Rightarrow>
                    (case datetime_ge_cutoff published_at (CUTOFF_DATE w) of
                       Inl e \<Rightarrow> Inl e
                     | Inr False \<Rightarrow> Inr None
                     | Inr True \<Rightarrow>
                         (case videoId cd of
                            None \<Rightarrow> Inl KeyError
                          | Some v \<Rightarrow> Inr (Some v))))))"

text \<open>The \<^verbatim>\<open>for\<close> loop over the items of one page; KeyError skips the item.\<close>

fun recent_in_page ::
  "env \<Rightarrow> playlist_item list \<Rightarrow> string list \<Rightarrow> bool \<Rightarrow> (string list \<times> bool) result" where
  "recent_in_page w [] video_ids found = Inr (video_ids, found)"
| "recent_in_page w (item # items) video_ids found =
     (case recent_item w item of
        Inl KeyError \<Rightarrow> recent_in_page w items video_ids found
      | Inl e \<Rightarrow> Inl e
      | Inr None \<Rightarrow> recent_in_page w items video_ids found
      | Inr (Some v) \<Rightarrow> recent_in_page w items (video_ids @ [v]) True)"

partial_function (option) get_recent_video_ids_loop ::
  "env \<Rightarrow> string \<Rightarrow> string list \<Rightarrow> string option \<Rightarrow> state \<Rightarrow> (string list result \<times> state) option"
where
  "get_recent_video_ids_loop w playlist_id video_ids next_page s =
     (let token = (if truthy next_page then next_page else None)
      in case playlist_items_get w (trace s) playlist_id token of
           RequestException \<Rightarrow>
             Some (Inr video_ids, count_error (issued (GetPlaylistItems playlist_id token) False s))
         | Ok data \<Rightarrow>
             (case recent_in_page w (pl_items data) video_ids False of
                Inl e \<Rightarrow> Some (Inl e, issued (GetPlaylistItems playlist_id token) True s)
              | Inr (video_ids', recent_videos_found_in_page) \<Rightarrow>
                  if \<not> recent_videos_found_in_page \<and> pl_items data \<noteq> []
                  then Some (Inr video_ids', issued (GetPlaylistItems playlist_id token) True s)
                  else if \<not> truthy (nextPageToken data)
                  then Some (Inr video_ids', issued (GetPlaylistItems playlist_id token) True s)
                  else get_recent_video_ids_loop w playlist_id video_ids' (nextPageToken data)
                         (issued (GetPlaylistItems playlist_id token) True s)))"

declare get_recent_video_ids_loop.simps [code]

definition get_recent_video_ids ::
  "env \<Rightarrow> string \<Rightarrow> state \<Rightarrow> (string list result \<times> state) option" where
  "get_recent_video_ids w playlist_id s = get_recent_video_ids_loop w playlist_id [] None s"

subsection \<open>\<open>get_video_stats_batch\<close>\<close>

function get_video_stats_batch_loop ::
  "env \<Rightarrow> string list \<Rightarrow> nat \<Rightarrow> video_item list \<Rightarrow> state \<Rightarrow> video_item list \<times> state" where
  "get_video_stats_batch_loop w video_ids i stats_data s =
     (if i < length video_ids
      then
        let batch = take 50 (drop i video_ids)
        in case videos_get w (trace s) batch of
             RequestException \<Rightarrow> (stats_data, count_error (issued (GetVideos batch) False s))
           | Ok items \<Rightarrow>
               get_video_stats_batch_loop w video_ids (i + 50) (stats_data @ items)
                 (issued (GetVideos batch) True s)
      else (stats_data, s))"
  by pat_completeness auto
termination
  by (relation "measure (\<lambda>(w, video_ids, i, stats_data, s). length video_ids - i)") auto

declare get_video_stats_batch_loop.simps [simp del]

definition get_video_stats_batch :: "env \<Rightarrow> string list \<Rightarrow> state \<Rightarrow> video_item list \<times> state" where
  "get_video_stats_batch w video_ids s = get_video_stats_batch_loop w video_ids 0 [] s"

subsection \<open>\<open>is_longform\<close>\<close>

text \<open>\<open>timedelta.total_seconds()\<close> divides the microseconds by \<open>10 ^ 6\<close> as a float.\<close>

definition total_seconds :: "timedelta \<Rightarrow> rat result" where
  "total_seconds td = (case td of Timedelta us \<Rightarrow> py_truediv us (10 ^ 6))"

definition is_longform :: "env \<Rightarrow> string \<Rightarrow> bool result" where
  "is_longform w iso_duration =
     (case parse_duration w iso_duration of
        Inl e \<Rightarrow> Inl e
      | Inr d \<Rightarrow>
          (case total_seconds d of
             Inl e \<Rightarrow> Inl e
           | Inr secs \<Rightarrow> Inr (180 \<le> secs)))"

subsection \<open>\<open>update_airtable_record\<close>\<close>

definition update_airtable_record :: "env \<Rightarrow> string \<Rightarrow> fields \<Rightarrow> state \<Rightarrow> state" where
  "update_airtable_record w record_id fields_to_update s =
     (case airtable_patch w (trace s) record_id fields_to_update of
        RequestException \<Rightarrow> issued (PatchRecord record_id fields_to_update) False s
      | Ok u \<Rightarrow> issued (PatchRecord record_id fields_to_update) True s)"

subsection \<open>\<open>main\<close>\<close>

text \<open>\<^verbatim>\<open>int(item['statistics'].get(key, 0))\<close>: a missing count is the integer 0.\<close>

definition count_of :: "env \<Rightarrow> string option \<Rightarrow> int result" where
  "count_of w field = (case field of None \<Rightarrow> Inr 0 | Some v \<Rightarrow> int_of_str w v)"

text \<open>
  The body of the \<^verbatim>\<open>try\<close> for one item of the statistics: \<open>Inr (Some (v, l, c))\<close>
  when the three counts are appended, \<open>Inr None\<close> when the item is not long-form.
\<close>

definition longform_counts :: "env \<Rightarrow> video_item \<Rightarrow> (int \<times> int \<times> int) option result" where
  "longform_counts w item =
     (case v_contentDetails item of
        None \<Rightarrow> Inl KeyError
      | Some cd \<Rightarrow>
          (case duration cd of
             None \<Rightarrow> Inl KeyError
           | Some d \<Rightarrow>
               (case is_longform w d of
                  Inl e \<Rightarrow> Inl e
                | Inr False \<Rightarrow> Inr None
                | Inr True \<Rightarrow>
                    (case statistics item of
                       None \<Rightarrow> Inl KeyError
                     | Some st \<Rightarrow>
                         (case count_of w (viewCount st) of
                            Inl e \<Rightarrow> Inl e
                          | Inr views \<Rightarrow>
                              (case count_of w (likeCount st) of
                                 Inl e \<Rightarrow> Inl e
                               | Inr likes \<Rightarrow>
                                   (case count_of w (commentCount st) of
                                      Inl e \<Rightarrow> Inl e
                                    | Inr comments \<Rightarrow> Inr (Some (views, likes, comments)))))))))"

text \<open>The \<^verbatim>\<open>for\<close> loop over the statistics; KeyError skips the item.\<close>

fun collect_longform ::
  "env \<Rightarrow> video_item list \<Rightarrow> int list \<Rightarrow> int list \<Rightarrow> int list \<Rightarrow>
     (int list \<times> int list \<times> int list) result" where
  "collect_longform w [] longform_views longform_likes longform_comments =
     Inr (longform_views, longform_likes, longform_comments)"
| "collect_longform w (item # items) longform_views longform_likes longform_comments =
     (case longform_counts w item of
        Inl KeyError \<Rightarrow> collect_longform w items longform_views longform_likes longform_comments
      | Inl e \<Rightarrow> Inl e
      | Inr None \<Rightarrow> collect_longform w items longform_views longform_likes longform_comments
      | Inr (Some (views, likes, comments)) \<Rightarrow>
          collect_longform w items (longform_views @ [views]) (longform_likes @ [likes])
            (longform_comments @ [comments]))"

text \<open>\<^verbatim>\<open>int(sum(xs) / len(xs)) if xs else 0\<close>\<close>

definition average :: "int list \<Rightarrow> int result" where
  "average xs =
     (if xs \<noteq> []
      then (case py_truediv (sum_list xs) (int (length xs)) of
              Inl e \<Rightarrow> Inl e
            | Inr q \<Rightarrow> Inr (py_int_of_float q))
      else Inr 0)"

text \<open>Steps 5 and 6 of the loop body: the three averages over the long-form items.\<close>

definition aggregate :: "env \<Rightarrow> video_item list \<Rightarrow> fields result" where
  "aggregate w video_stats_list =
     (case collect_longform w video_stats_list [] [] [] of
        Inl e \<Rightarrow> Inl e
      | Inr (longform_views, longform_likes, longform_comments) \<Rightarrow>
          (case average longform_views of
             Inl e \<Rightarrow> Inl e
           | Inr avg_views \<Rightarrow>
               (case average longform_likes of
                  Inl e \<Rightarrow> Inl e
                | Inr avg_likes \<Rightarrow>
                    (case average longform_comments of
                       Inl e \<Rightarrow> Inl e
                     | Inr avg_comments \<Rightarrow> Inr (avg_views, avg_likes, avg_comments)))))"

text \<open>
  The body of the loop over the records, after the check of the error budget. It
  returns the new value of \<open>updated_count\<close>.
\<close>

definition process_record ::
  "env \<Rightarrow> airtable_record \<Rightarrow> nat \<Rightarrow> state \<Rightarrow> (nat result \<times> state) option" where
  "process_record w record updated_count s =
     (case channel_id_field record of
        None \<Rightarrow> Some (Inr updated_count, s)
      | Some channel_id \<Rightarrow>
          if channel_id = [] then Some (Inr updated_count, s)
          else
            (case get_uploads_playlist_id w channel_id s of
               (Inl e, s1) \<Rightarrow> Some (Inl e, s1)
             | (Inr playlist, s1) \<Rightarrow>
                 (case (if truthy playlist then playlist else None) of
                    None \<Rightarrow>
                      Some (Inr (updated_count + 1),
                            update_airtable_record w (rec_id record) (0, 0, 0) s1)
                  | Some playlist_id \<Rightarrow>
                      (case get_recent_video_ids w playlist_id s1 of
                         None \<Rightarrow> None
                       | Some (Inl e, s2) \<Rightarrow> Some (Inl e, s2)
                       | Some (Inr video_ids, s2) \<Rightarrow>
                           if video_ids = []
                           then Some (Inr (updated_count + 1),
                                      update_airtable_record w (rec_id record) (0, 0, 0) s2)
                           else
                             (case get_video_stats_batch w video_ids s2 of
                                (video_stats_list, s3) \<Rightarrow>
                                  (case aggregate w video_stats_list of
                                     Inl e \<Rightarrow> Some (Inl e, s3)
                                   | Inr fields_to_update \<Rightarrow>
                                       Some (Inr (updated_count + 1),
                                             update_airtable_record w (rec_id record)
                                               fields_to_update s3)))))))"

fun main_loop ::
  "env \<Rightarrow> airtable_record list \<Rightarrow> nat \<Rightarrow> state \<Rightarrow> (nat result \<times> state) option" where
  "main_loop w [] updated_count s = Some (Inr updated_count, s)"
| "main_loop w (record # records) updated_count s =
     (if ERROR_LIMIT \<le> error_count s then Some (Inr updated_count, s)
      else
        (case process_record w record updated_count s of
           None \<Rightarrow> None
         | Some (Inl e, s') \<Rightarrow> Some (Inl e, s')
         | Some (Inr updated_count', s') \<Rightarrow> main_loop w records updated_count' s'))"

text \<open>
  \<open>main\<close> returns the total it reports in its last lines, or \<open>None\<close> when it returns
  before the loop. The run starts with \<open>error_count = 0\<close> and no request issued.
\<close>

definition initial_state :: state where
  "initial_state = \<lparr>error_count = 0, trace = []\<rparr>"

definition main :: "env \<Rightarrow> (nat option result \<times> state) option" where
  "main w =
     (if \<not> (truthy (AIRTABLE_API_KEY w) \<and> truthy (AIRTABLE_BASE_ID w) \<and> truthy (YOUTUBE_API_KEY w))
      then Some (Inr None, initial_state)
      else
        (case get_airtable_records w initial_state of
           None \<Rightarrow> None
         | Some (records, s) \<Rightarrow>
             if records = [] then Some (Inr None, s)
             else
               (case main_loop w records 0 s of
                  None \<Rightarrow> None
                | Some (Inl e, s') \<Rightarrow> Some (Inl e, s')
                | Some (Inr updated_count, s') \<Rightarrow> Some (Inr (Some updated_count), s'))))"

section \<open>Accounting on the trace\<close>

text \<open>
  A failed request to one of the three YouTube endpoints, and an update call, whether it
  succeeded or not, as they appear in the trace.
\<close>

fun youtube_failure :: "event \<Rightarrow> bool" where
  "youtube_failure (GetChannel c, ok) = (\<not> ok)"
| "youtube_failure (GetPlaylistItems p t, ok) = (\<not> ok)"
| "youtube_failure (GetVideos b, ok) = (\<not> ok)"
| "youtube_failure (ListRecords offset, ok) = False"
| "youtube_failure (PatchRecord r f, ok) = False"

definition youtube_failures :: "event list \<Rightarrow> nat" where
  "youtube_failures tr = length (filter youtube_failure tr)"

fun update_attempt :: "event \<Rightarrow> bool" where
  "update_attempt (PatchRecord r f, ok) = True"
| "update_attempt (other, ok) = False"

definition update_attempts :: "event list \<Rightarrow> nat" where
  "update_attempts tr = length (filter update_attempt tr)"

definition lookup_step :: "state \<Rightarrow> state \<Rightarrow> bool" where
  "lookup_step s s' \<longleftrightarrow>
     error_count s' + youtube_failures (trace s) = error_count s + youtube_failures (trace s') \<and>
     update_attempts (trace s') = update_attempts (trace s)"

text \<open>
  Two relations between the state before and after a piece of the run: the error counter
  grows by the number of failed YouTube requests added to the trace, and no update call
  (\<open>lookup_step\<close>) or exactly one (\<open>update_step\<close>) is added.
\<close>

definition update_step :: "state \<Rightarrow> state \<Rightarrow> bool" where
  "update_step s s' \<longleftrightarrow>
     error_count s' + youtube_failures (trace s) = error_count s + youtube_failures (trace s') \<and>
     update_attempts (trace s') = update_attempts (trace s) + 1"

section \<open>The mean as the spec has it\<close>

text \<open>
  The floor of the arithmetic mean, and the range of sums on which the float division of
  \<open>average\<close> is exact.
\<close>

definition floor_mean :: "int list \<Rightarrow> int" where
  "floor_mean xs = sum_list xs div int (length xs)"

definition exact_range :: "int list \<Rightarrow> bool" where
  "exact_range xs \<longleftrightarrow> 0 \<le> sum_list xs \<and> sum_list xs < 2 ^ 53"

section \<open>A concrete run\<close>

text \<open>
  One environment on which the functions are evaluated. Its answers do not depend on the
  history. The parsers are given on the strings that occur: decimal digits for
  \<^verbatim>\<open>int\<close>, two UTC timestamps for \<^verbatim>\<open>dateutil\<close>, two durations for \<^verbatim>\<open>isodate\<close>.
\<close>

fun decimal :: "string \<Rightarrow> int \<Rightarrow> int result" where
  "decimal [] acc = Inr acc"
| "decimal (c # cs) acc =
     (let n = (of_char c :: nat)
      in if 48 \<le> n \<and> n \<le> 57 then decimal cs (10 * acc + int (n - 48)) else Inl ValueError)"

definition demo_int :: "string \<Rightarrow> int result" where
  "demo_int v = (if v = [] then Inl ValueError else decimal v 0)"

definition demo_parse :: "string \<Rightarrow> datetime result" where
  "demo_parse ts =
     (if ts = ''2026-10-01T00:00:00Z'' then Inr (Aware 1790812800000000)
      else if ts = ''2026-01-01T00:00:00Z'' then Inr (Aware 1767225600000000)
      else Inl ValueError)"

definition demo_duration :: "string \<Rightarrow> timedelta result" where
  "demo_duration d =
     (if d = ''PT3M'' then Inr (Timedelta 180000000)
      else if d = ''PT2M59S'' then Inr (Timedelta 179000000)
      else Inl ValueError)"

definition new_item :: "string \<Rightarrow> playlist_item" where
  "new_item v =
     \<lparr>pl_contentDetails =
        Some \<lparr>videoPublishedAt = Some ''2026-10-01T00:00:00Z'', videoId = Some v\<rparr>\<rparr>"

definition old_item :: "string \<Rightarrow> playlist_item" where
  "old_item v =
     \<lparr>pl_contentDetails =
        Some \<lparr>videoPublishedAt = Some ''2026-01-01T00:00:00Z'', videoId = Some v\<rparr>\<rparr>"

definition video :: "string \<Rightarrow> string option \<Rightarrow> string option \<Rightarrow> string option \<Rightarrow> video_item" where
  "video d v l c =
     \<lparr>v_contentDetails = Some \<lparr>duration = Some d\<rparr>,
      statistics = Some \<lparr>viewCount = v, likeCount = l, commentCount = c\<rparr>\<rparr>"

definition demo_records :: "string option \<Rightarrow> airtable_page response" where
  "demo_records offset =
     (if offset = None
      then Ok \<lparr>page_records =
                 [\<lparr>rec_id = ''recA'', channel_id_field = Some ''UCa''\<rparr>,
                  \<lparr>rec_id = ''recB'', channel_id_field = Some ''UCb''\<rparr>],
               page_offset = Some ''o2''\<rparr>
      else if offset = Some ''o2''
      then Ok \<lparr>page_records =
                 [\<lparr>rec_id = ''recC'', channel_id_field = None\<rparr>,
                  \<lparr>rec_id = ''recD'', channel_id_field = Some ''UCd''\<rparr>,
                  \<lparr>rec_id = ''recE'', channel_id_field = Some ''UCe''\<rparr>],
               page_offset = None\<rparr>
      else RequestException)"

definition demo_channels :: "string \<Rightarrow> channel_item list response" where
  "demo_channels channel_id =
     (if channel_id = ''UCa''
      then Ok [\<lparr>ch_contentDetails = Some \<lparr>relatedPlaylists = Some \<lparr>uploads = Some ''UUa''\<rparr>\<rparr>\<rparr>]
      else if channel_id = ''UCb'' then RequestException
      else if channel_id = ''UCd''
      then Ok [\<lparr>ch_contentDetails = Some \<lparr>relatedPlaylists = Some \<lparr>uploads = Some ''UUd''\<rparr>\<rparr>\<rparr>]
      else if channel_id = ''UCe''
      then Ok [\<lparr>ch_contentDetails = Some \<lparr>relatedPlaylists = Some \<lparr>uploads = Some ''UUe''\<rparr>\<rparr>\<rparr>]
      else if channel_id = ''UCx'' then Ok [\<lparr>ch_contentDetails = None\<rparr>]
      else Ok [])"

text \<open>
  The list \<open>UUa\<close> has the three pages of the pagination scenario: five recent items,
  then three old ones, then ten recent ones. The list \<open>UUx\<close> starts with an empty page.
\<close>

definition demo_playlist :: "string \<Rightarrow> string option \<Rightarrow> playlist_page response" where
  "demo_playlist playlist_id token =
     (if playlist_id = ''UUa'' \<and> token = None
      then Ok \<lparr>pl_items = map new_item [''a1'', ''a2'', ''a3'', ''a4'', ''a5''],
               nextPageToken = Some ''p2''\<rparr>
      else if playlist_id = ''UUa'' \<and> token = Some ''p2''
      then Ok \<lparr>pl_items = map old_item [''o1'', ''o2'', ''o3''], nextPageToken = Some ''p3''\<rparr>
      else if playlist_id = ''UUa'' \<and> token = Some ''p3''
      then Ok \<lparr>pl_items =
                 map new_item [''b1'', ''b2'', ''b3'', ''b4'', ''b5'', ''b6'', ''b7'', ''b8'', ''b9'', ''b10''],
               nextPageToken = None\<rparr>
      else if playlist_id = ''UUd'' \<and> token = None
      then Ok \<lparr>pl_items = map new_item [''d1'', ''d2''], nextPageToken = None\<rparr>
      else if playlist_id = ''UUe'' \<and> token = None
      then Ok \<lparr>pl_items = map new_item [''e1''], nextPageToken = None\<rparr>
      else if playlist_id = ''UUx'' \<and> token = None
      then Ok \<lparr>pl_items = [], nextPageToken = Some ''n2''\<rparr>
      else if playlist_id = ''UUx'' \<and> token = Some ''n2''
      then Ok \<lparr>pl_items = map new_item [''x1''], nextPageToken = None\<rparr>
      else RequestException)"

definition demo_videos :: "string list \<Rightarrow> video_item list response" where
  "demo_videos batch =
     (if batch = [''a1'', ''a2'', ''a3'', ''a4'', ''a5'']
      then Ok [video ''PT3M'' (Some ''100'') (Some ''10'') (Some ''2''),
               video ''PT2M59S'' (Some ''5000'') (Some ''50'') (Some ''5''),
               video ''PT3M'' (Some ''300'') None (Some ''4''),
               \<lparr>v_contentDetails = Some \<lparr>duration = Some ''PT3M''\<rparr>, statistics = None\<rparr>,
               \<lparr>v_contentDetails = None,
                statistics = Some \<lparr>viewCount = Some ''7'', likeCount = None, commentCount = None\<rparr>\<rparr>]
      else if batch = [''e1'']
      then Ok [video ''PT2M59S'' (Some ''5000'') (Some ''50'') (Some ''5'')]
      else RequestException)"

definition demo_patch :: "string \<Rightarrow> fields \<Rightarrow> unit response" where
  "demo_patch record_id fields_to_update =
     (if record_id = ''recB'' then RequestException else Ok ())"

definition demo_env :: env where
  "demo_env =
     \<lparr>AIRTABLE_API_KEY = Some ''key'',
      AIRTABLE_BASE_ID = Some ''app'',
      YOUTUBE_API_KEY = Some ''yt'',
      CUTOFF_DATE = 1785974400000000,
      airtable_get = (\<lambda>tr. demo_records),
      airtable_patch = (\<lambda>tr. demo_patch),
      channels_get = (\<lambda>tr. demo_channels),
      playlist_items_get = (\<lambda>tr. demo_playlist),
      videos_get = (\<lambda>tr. demo_videos),
      parser_parse = demo_parse,
      parse_duration = demo_duration,
      int_of_str = demo_int\<rparr>"

text \<open>The state in which \<open>main\<close> leaves the concrete run.\<close>

definition demo_final :: state where
  "demo_final =
     \<lparr>error_count = 2,
      trace =
        [(ListRecords None, True), (ListRecords (Some ''o2''), True),
         (GetChannel ''UCa'', True), (GetPlaylistItems ''UUa'' None, True),
         (GetPlaylistItems ''UUa'' (Some ''p2''), True),
         (GetVideos [''a1'', ''a2'', ''a3'', ''a4'', ''a5''], True),
         (PatchRecord ''recA'' (200, 5, 3), True),
         (GetChannel ''UCb'', False),
         (PatchRecord ''recB'' (0, 0, 0), False),
         (GetChannel ''UCd'', True), (GetPlaylistItems ''UUd'' None, True),
         (GetVideos [''d1'', ''d2''], False),
         (PatchRecord ''recD'' (0, 0, 0), True), (GetChannel ''UCe'', True),
         (GetPlaylistItems ''UUe'' None, True), (GetVideos [''e1''], True),
         (PatchRecord ''recE'' (0, 0, 0), True)]\<rparr>"

section \<open>Every component keeps the accounts\<close>

lemma lookup_step_refl: "lookup_step s s"
  by (simp add: lookup_step_def)

lemma lookup_step_trans: "lookup_step s s' \<Longrightarrow> lookup_step s' s'' \<Longrightarrow> lookup_step s s''"
  by (auto simp: lookup_step_def)

lemma lookup_step_issued_ok:
  "\<not> update_attempt (r, True) \<Longrightarrow> lookup_step s (issued r True s)"
  by (cases r) (simp_all add: lookup_step_def issued_def youtube_failures_def update_attempts_def)

lemma lookup_step_list_failed: "lookup_step s (issued (ListRecords p) False s)"
  by (simp add: lookup_step_def issued_def youtube_failures_def update_attempts_def)

lemma lookup_step_youtube_failed:
  "youtube_failure (r, False) \<Longrightarrow> lookup_step s (count_error (issued r False s))"
  by (cases r) (simp_all add: lookup_step_def issued_def count_error_def youtube_failures_def update_attempts_def)

lemma get_airtable_records_loop_step:
  assumes "get_airtable_records_loop w0 records0 offset0 s0 = Some y0"
  shows "lookup_step s0 (snd y0)"
proof (rule get_airtable_records_loop.raw_induct
    [where P = "\<lambda>w records offset s y. lookup_step s (snd y)", OF _ assms], goal_cases)
  case (1 loop w records offset s y)
  define params where "params = (if truthy offset then offset else None)"
  have ok: "lookup_step s (issued (ListRecords params) True s)"
    by (rule lookup_step_issued_ok) simp
  note body = 1(2) [folded params_def, unfolded Let_def]
  show ?case
  proof (cases "airtable_get w (trace s) params")
    case RequestException
    with body have "snd y = issued (ListRecords params) False s" by auto
    then show ?thesis by (simp add: lookup_step_list_failed)
  next
    case (Ok data)
    show ?thesis
    proof (cases "truthy (page_offset data)")
      case False
      with Ok body have "snd y = issued (ListRecords params) True s" by auto
      with ok show ?thesis by simp
    next
      case True
      with Ok body have "loop w (records @ page_records data) (page_offset data)
          (issued (ListRecords params) True s) = Some y" by auto
      then have "lookup_step (issued (ListRecords params) True s) (snd y)"
        by (rule 1(1))
      with ok show ?thesis by (rule lookup_step_trans)
    qed
  qed
qed

lemma get_airtable_records_loop_error_count:
  assumes "get_airtable_records_loop w0 records0 offset0 s0 = Some y0"
  shows "error_count (snd y0) = error_count s0"
proof (rule get_airtable_records_loop.raw_induct
    [where P = "\<lambda>w records offset s y. error_count (snd y) = error_count s", OF _ assms], goal_cases)
  case (1 loop w records offset s y)
  define params where "params = (if truthy offset then offset else None)"
  note body = 1(2) [folded params_def, unfolded Let_def]
  show ?case
  proof (cases "airtable_get w (trace s) params")
    case RequestException
    with body show ?thesis by (auto simp: issued_def)
  next
    case (Ok data)
    show ?thesis
    proof (cases "truthy (page_offset data)")
      case False
      with Ok body show ?thesis by (auto simp: issued_def)
    next
      case True
      with Ok body have "loop w (records @ page_records data) (page_offset data)
          (issued (ListRecords params) True s) = Some y" by auto
      then have "error_count (snd y) = error_count (issued (ListRecords params) True s)"
        by (rule 1(1))
      then show ?thesis by (simp add: issued_def)
    qed
  qed
qed

lemma get_uploads_playlist_id_step:
  "get_uploads_playlist_id w c s = (out, s') \<Longrightarrow> lookup_step s s'"
  by (auto simp: get_uploads_playlist_id_def lookup_step_issued_ok lookup_step_youtube_failed
      split: response.splits list.splits sum.splits)

lemma get_recent_video_ids_loop_step:
  assumes "get_recent_video_ids_loop w0 p0 ids0 next_page0 s0 = Some y0"
  shows "lookup_step s0 (snd y0)"
proof (rule get_recent_video_ids_loop.raw_induct
    [where P = "\<lambda>w p ids next_page s y. lookup_step s (snd y)", OF _ assms], goal_cases)
  case (1 loop w p ids next_page s y)
  define token where "token = (if truthy next_page then next_page else None)"
  have ok: "lookup_step s (issued (GetPlaylistItems p token) True s)"
    by (rule lookup_step_issued_ok) simp
  note body = 1(2) [folded token_def, unfolded Let_def]
  show ?case
  proof (cases "playlist_items_get w (trace s) p token")
    case RequestException
    with body have "snd y = count_error (issued (GetPlaylistItems p token) False s)" by auto
    then show ?thesis by (simp add: lookup_step_youtube_failed)
  next
    case (Ok data)
    show ?thesis
    proof (cases "recent_in_page w (pl_items data) ids False")
      case (Inl e)
      with Ok body have "snd y = issued (GetPlaylistItems p token) True s" by auto
      with ok show ?thesis by simp
    next
      case (Inr r)
      obtain ids' found where r: "r = (ids', found)" by (cases r)
      show ?thesis
      proof (cases "(\<not> found \<and> pl_items data \<noteq> []) \<or> \<not> truthy (nextPageToken data)")
        case True
        with Ok Inr r body have "snd y = issued (GetPlaylistItems p token) True s"
          by (auto split: if_splits)
        with ok show ?thesis by simp
      next
        case False
        with Ok Inr r body have "loop w p ids' (nextPageToken data)
            (issued (GetPlaylistItems p token) True s) = Some y" by (auto split: if_splits)
        then have "lookup_step (issued (GetPlaylistItems p token) True s) (snd y)"
          by (rule 1(1))
        with ok show ?thesis by (rule lookup_step_trans)
      qed
    qed
  qed
qed

lemma get_video_stats_batch_loop_step:
  "get_video_stats_batch_loop w ids i acc s = (out, s') \<Longrightarrow> lookup_step s s'"
proof (induction w ids i acc s rule: get_video_stats_batch_loop.induct)
  case (1 w ids i acc s)
  define batch where "batch = take 50 (drop i ids)"
  note body = 1(2) [unfolded get_video_stats_batch_loop.simps [of w ids i acc s], folded batch_def,
      unfolded Let_def]
  show ?case
  proof (cases "i < length ids")
    case False
    with body show ?thesis by (simp add: lookup_step_refl)
  next
    case True
    show ?thesis
    proof (cases "videos_get w (trace s) batch")
      case RequestException
      with True body have "s' = count_error (issued (GetVideos batch) False s)" by simp
      then show ?thesis by (simp add: lookup_step_youtube_failed)
    next
      case (Ok items)
      with True body have "get_video_stats_batch_loop w ids (i + 50) (acc @ items)
          (issued (GetVideos batch) True s) = (out, s')" by simp
      then have "lookup_step (issued (GetVideos batch) True s) s'"
        using 1(1) [OF True refl, of items] Ok by (simp add: batch_def)
      then show ?thesis
        by (rule lookup_step_trans [OF lookup_step_issued_ok, rotated]) simp
    qed
  qed
qed

lemma update_airtable_record_attempt:
  "update_airtable_record w r f s =
     issued (PatchRecord r f) (airtable_patch w (trace s) r f \<noteq> RequestException) s"
  by (simp add: update_airtable_record_def split: response.splits)

lemma update_airtable_record_step:
  "lookup_step s s' \<Longrightarrow> update_step s (update_airtable_record w r f s')"
  by (auto simp: update_airtable_record_attempt issued_def lookup_step_def update_step_def
      youtube_failures_def update_attempts_def)

lemma process_record_step:
  assumes "process_record w record n s = Some (out, s')"
  shows "case out of Inl e \<Rightarrow> lookup_step s s'
         | Inr n' \<Rightarrow> (n' = n \<and> lookup_step s s') \<or> (n' = n + 1 \<and> update_step s s')"
proof (cases "truthy (channel_id_field record)")
  case False
  with assms show ?thesis
    by (auto simp: process_record_def truthy_def lookup_step_refl split: option.splits if_splits)
next
  case True
  then obtain c where c: "channel_id_field record = Some c" "c \<noteq> []"
    by (auto simp: truthy_def split: option.splits)
  obtain r1 s1 where u: "get_uploads_playlist_id w c s = (r1, s1)" by fastforce
  then have l1: "lookup_step s s1" by (rule get_uploads_playlist_id_step)
  show ?thesis
  proof (cases r1)
    case (Inl e)
    with assms c u l1 show ?thesis by (auto simp: process_record_def)
  next
    case (Inr playlist)
    show ?thesis
    proof (cases "truthy playlist")
      case False
      with assms c u Inr have "out = Inr (n + 1)" "s' = update_airtable_record w (rec_id record) (0, 0, 0) s1"
        by (simp_all add: process_record_def)
      with l1 show ?thesis by (simp add: update_airtable_record_step)
    next
      case True
      then obtain p where p: "playlist = Some p" by (auto simp: truthy_def split: option.splits)
      from assms c u Inr True p obtain r2 s2 where
        g: "get_recent_video_ids w p s1 = Some (r2, s2)"
        by (auto simp: process_record_def split: option.splits)
      then have "lookup_step s1 s2"
        using get_recent_video_ids_loop_step [of w p "[]" None s1 "(r2, s2)"]
        by (simp add: get_recent_video_ids_def)
      with l1 have l2: "lookup_step s s2" by (rule lookup_step_trans)
      show ?thesis
      proof (cases r2)
        case (Inl e)
        with assms c u Inr True p g l2 show ?thesis by (auto simp: process_record_def)
      next
        case ids: (Inr video_ids)
        show ?thesis
        proof (cases "video_ids = []")
          case True
          with assms c u Inr \<open>truthy playlist\<close> p g ids
          have "out = Inr (n + 1)" "s' = update_airtable_record w (rec_id record) (0, 0, 0) s2"
            by (simp_all add: process_record_def)
          with l2 show ?thesis by (simp add: update_airtable_record_step)
        next
          case False
          obtain stats s3 where b: "get_video_stats_batch w video_ids s2 = (stats, s3)" by fastforce
          then have "lookup_step s2 s3"
            by (simp add: get_video_stats_batch_def get_video_stats_batch_loop_step)
          with l2 have l3: "lookup_step s s3" by (rule lookup_step_trans)
          show ?thesis
          proof (cases "aggregate w stats")
            case (Inl e)
            with assms c u Inr \<open>truthy playlist\<close> p g ids False b l3 show ?thesis
              by (auto simp: process_record_def)
          next
            case fields: (Inr f)
            with assms c u Inr \<open>truthy playlist\<close> p g ids False b
            have "out = Inr (n + 1)" "s' = update_airtable_record w (rec_id record) f s3"
              by (simp_all add: process_record_def)
            with l3 show ?thesis by (simp add: update_airtable_record_step)
          qed
        qed
      qed
    qed
  qed
qed

lemma main_loop_step:
  "main_loop w records n s = Some (out, s') \<Longrightarrow>
   error_count s' + youtube_failures (trace s) = error_count s + youtube_failures (trace s') \<and>
   (\<forall>n'. out = Inr n' \<longrightarrow> n' + update_attempts (trace s) = n + update_attempts (trace s'))"
proof (induction records arbitrary: n s)
  case Nil
  then show ?case by auto
next
  case (Cons r records)
  show ?case
  proof (cases "ERROR_LIMIT \<le> error_count s")
    case True
    with Cons.prems show ?thesis by auto
  next
    case False
    with Cons.prems obtain r1 s1 where p: "process_record w r n s = Some (r1, s1)"
      by (auto split: option.splits)
    note st = process_record_step [OF p]
    show ?thesis
    proof (cases r1)
      case (Inl e)
      with Cons.prems False p st show ?thesis by (auto simp: lookup_step_def)
    next
      case (Inr n1)
      with Cons.prems False p have "main_loop w records n1 s1 = Some (out, s')" by simp
      from Cons.IH [OF this] st Inr show ?thesis
        by (auto simp: lookup_step_def update_step_def)
    qed
  qed
qed

lemma main_step:
  assumes "main w = Some (out, s)"
  shows "error_count s = youtube_failures (trace s) \<and>
         (\<forall>total. out = Inr (Some total) \<longrightarrow> total = update_attempts (trace s))"
proof (cases "truthy (AIRTABLE_API_KEY w) \<and> truthy (AIRTABLE_BASE_ID w) \<and> truthy (YOUTUBE_API_KEY w)")
  case False
  with assms show ?thesis
    by (auto simp: main_def initial_state_def youtube_failures_def)
next
  case True
  with assms obtain records s1 where
    g: "get_airtable_records w initial_state = Some (records, s1)"
    by (auto simp: main_def split: option.splits)
  then have "lookup_step initial_state s1"
    using get_airtable_records_loop_step [of w "[]" None initial_state "(records, s1)"]
    by (simp add: get_airtable_records_def)
  then have s1: "error_count s1 = youtube_failures (trace s1)" "update_attempts (trace s1) = 0"
    by (simp_all add: lookup_step_def initial_state_def youtube_failures_def update_attempts_def)
  show ?thesis
  proof (cases "records = []")
    case True
    with assms \<open>truthy (AIRTABLE_API_KEY w) \<and> truthy (AIRTABLE_BASE_ID w) \<and> truthy (YOUTUBE_API_KEY w)\<close>
      g s1 show ?thesis
      by (auto simp: main_def)
  next
    case False
    with assms \<open>truthy (AIRTABLE_API_KEY w) \<and> truthy (AIRTABLE_BASE_ID w) \<and> truthy (YOUTUBE_API_KEY w)\<close>
      g obtain out' where
      m: "main_loop w records 0 s1 = Some (out', s)"
      and out: "out = (case out' of Inl e \<Rightarrow> Inl e | Inr n \<Rightarrow> Inr (Some n))"
      by (auto simp: main_def split: option.splits sum.splits)
    from main_loop_step [OF m] s1 out show ?thesis
      by (auto split: sum.splits)
  qed
qed

section \<open>One step of each loop\<close>

lemma records_loop_failed:
  assumes "airtable_get w (trace s) (if truthy offset then offset else None) = RequestException"
  shows "get_airtable_records_loop w records offset s =
           Some (records, issued (ListRecords (if truthy offset then offset else None)) False s)"
  by (subst get_airtable_records_loop.simps) (simp add: assms Let_def)

lemma recent_in_page_not_found:
  "recent_in_page w items video_ids found = Inr (video_ids', False) \<Longrightarrow>
   video_ids' = video_ids \<and> \<not> found"
proof (induction items arbitrary: video_ids found)
  case Nil
  then show ?case by simp
next
  case (Cons item items)
  show ?case
  proof (cases "recent_item w item")
    case (Inl e)
    with Cons.prems have "recent_in_page w items video_ids found = Inr (video_ids', False)"
      by (cases e) simp_all
    then show ?thesis by (rule Cons.IH)
  next
    case (Inr r)
    show ?thesis
    proof (cases r)
      case None
      with Inr Cons.prems have "recent_in_page w items video_ids found = Inr (video_ids', False)"
        by simp
      then show ?thesis by (rule Cons.IH)
    next
      case (Some v)
      with Inr Cons.prems have "recent_in_page w items (video_ids @ [v]) True = Inr (video_ids', False)"
        by simp
      from Cons.IH [OF this] show ?thesis by simp
    qed
  qed
qed

lemma recent_loop_failed:
  assumes "playlist_items_get w (trace s) playlist_id (if truthy next_page then next_page else None) =
             RequestException"
  shows "get_recent_video_ids_loop w playlist_id video_ids next_page s =
           Some (Inr video_ids,
                 count_error (issued (GetPlaylistItems playlist_id
                   (if truthy next_page then next_page else None)) False s))"
  by (subst get_recent_video_ids_loop.simps) (simp add: assms Let_def)

lemma recent_loop_stops:
  assumes "playlist_items_get w (trace s) playlist_id (if truthy next_page then next_page else None) =
             Ok data"
    and "pl_items data \<noteq> []"
    and "recent_in_page w (pl_items data) video_ids False = Inr (video_ids', False)"
  shows "get_recent_video_ids_loop w playlist_id video_ids next_page s =
           Some (Inr video_ids,
                 issued (GetPlaylistItems playlist_id
                   (if truthy next_page then next_page else None)) True s)"
proof -
  from recent_in_page_not_found [OF assms(3)] have "video_ids' = video_ids" by simp
  with assms show ?thesis
    by (subst get_recent_video_ids_loop.simps) (simp add: Let_def)
qed

lemma recent_loop_empty_page:
  assumes "playlist_items_get w (trace s) playlist_id (if truthy next_page then next_page else None) =
             Ok data"
    and "pl_items data = []"
    and "truthy (nextPageToken data)"
  shows "get_recent_video_ids_loop w playlist_id video_ids next_page s =
           get_recent_video_ids_loop w playlist_id video_ids (nextPageToken data)
             (issued (GetPlaylistItems playlist_id
                (if truthy next_page then next_page else None)) True s)"
  using assms by (subst get_recent_video_ids_loop.simps) (simp add: Let_def)

lemma batch_loop_failed:
  assumes "i < length video_ids"
    and "videos_get w (trace s) (take 50 (drop i video_ids)) = RequestException"
  shows "get_video_stats_batch_loop w video_ids i stats_data s =
           (stats_data, count_error (issued (GetVideos (take 50 (drop i video_ids))) False s))"
  by (subst get_video_stats_batch_loop.simps) (simp add: assms Let_def)

lemma collect_longform_lengths:
  "collect_longform w items vs ls cs = Inr (vs', ls', cs') \<Longrightarrow>
   length ls = length vs \<Longrightarrow> length cs = length vs \<Longrightarrow>
   length ls' = length vs' \<and> length cs' = length vs'"
proof (induction items arbitrary: vs ls cs)
  case Nil
  then show ?case by simp
next
  case (Cons item items)
  show ?case
  proof (cases "longform_counts w item")
    case (Inl e)
    with Cons.prems(1) have "collect_longform w items vs ls cs = Inr (vs', ls', cs')"
      by (cases e) simp_all
    then show ?thesis using Cons.prems(2,3) by (rule Cons.IH)
  next
    case (Inr r)
    show ?thesis
    proof (cases r)
      case None
      with Inr Cons.prems(1) have "collect_longform w items vs ls cs = Inr (vs', ls', cs')"
        by simp
      then show ?thesis using Cons.prems(2,3) by (rule Cons.IH)
    next
      case (Some t)
      obtain v l c where t: "t = (v, l, c)" by (cases t)
      with Some Inr Cons.prems(1)
      have "collect_longform w items (vs @ [v]) (ls @ [l]) (cs @ [c]) = Inr (vs', ls', cs')"
        by simp
      then show ?thesis
        by (rule Cons.IH) (simp_all add: Cons.prems(2,3))
    qed
  qed
qed

lemma total_seconds_not_KeyError: "total_seconds d \<noteq> Inl KeyError"
  by (cases d) (simp add: total_seconds_def py_truediv_def Let_def)

lemma is_longform_not_KeyError:
  "\<forall>x. parse_duration w x \<noteq> Inl KeyError \<Longrightarrow> is_longform w d \<noteq> Inl KeyError"
  using total_seconds_not_KeyError
  by (auto simp: is_longform_def split: sum.splits)

lemma count_of_not_KeyError:
  "\<forall>x. int_of_str w x \<noteq> Inl KeyError \<Longrightarrow> count_of w field \<noteq> Inl KeyError"
  by (auto simp: count_of_def split: option.splits)

lemma aggregate_empty:
  "collect_longform w video_stats_list [] [] [] = Inr ([], [], []) \<Longrightarrow>
   aggregate w video_stats_list = Inr (0, 0, 0)"
  by (simp add: aggregate_def average_def)

lemma process_record_aggregate:
  assumes "channel_id_field record = Some channel_id" and "channel_id \<noteq> []"
    and "get_uploads_playlist_id w channel_id s = (Inr (Some playlist_id), s1)"
    and "playlist_id \<noteq> []"
    and "get_recent_video_ids w playlist_id s1 = Some (Inr video_ids, s2)"
    and "video_ids \<noteq> []"
    and "get_video_stats_batch w video_ids s2 = (video_stats_list, s3)"
    and "aggregate w video_stats_list = Inr fields_to_update"
  shows "process_record w record updated_count s =
           Some (Inr (updated_count + 1),
                 update_airtable_record w (rec_id record) fields_to_update s3)"
  using assms by (simp add: process_record_def truthy_def)

lemma process_record_no_recent:
  assumes "channel_id_field record = Some channel_id" and "channel_id \<noteq> []"
    and "get_uploads_playlist_id w channel_id s = (Inr (Some playlist_id), s1)"
    and "playlist_id \<noteq> []"
    and "get_recent_video_ids w playlist_id s1 = Some (Inr [], s2)"
  shows "process_record w record updated_count s =
           Some (Inr (updated_count + 1),
                 update_airtable_record w (rec_id record) (0, 0, 0) s2)"
  using assms by (simp add: process_record_def truthy_def)

section \<open>Rounding to a double\<close>

lemma pow2_powi: "pow2 e = 2 powi e"
  by (simp add: pow2_def power_int_def inverse_eq_divide power_one_over)

lemma pow2_pos: "0 < pow2 e"
  by (simp add: pow2_powi)

lemma pow2_add: "pow2 (a + b) = pow2 a * pow2 b"
  by (simp add: pow2_powi power_int_add)

lemma pow2_mono: "a \<le> b \<Longrightarrow> pow2 a \<le> pow2 b"
  by (simp add: pow2_powi power_int_increasing)

lemma pow2_less_imp: "pow2 a < pow2 b \<Longrightarrow> a < b"
  using pow2_mono [of b a] by (cases "a < b") auto

lemma pow2_nat: "0 \<le> e \<Longrightarrow> pow2 e = of_int (2 ^ nat e)"
  by (simp add: pow2_def)

lemma pow2_inverse: "pow2 (- e) = 1 / pow2 e"
  by (simp add: pow2_powi power_int_minus inverse_eq_divide)

lemma pow2_numeral_neg: "pow2 (- 1) = 1 / 2"
  by (simp add: pow2_def)

lemma round_half_even_ge: "of_int n \<le> x \<Longrightarrow> n \<le> round_half_even x"
proof -
  assume "of_int n \<le> x"
  then have "n \<le> \<lfloor>x\<rfloor>" by (simp add: le_floor_iff)
  then show ?thesis by (simp add: round_half_even_def Let_def)
qed

lemma round_half_even_less: "x < of_int n - 1 / 2 \<Longrightarrow> round_half_even x < n"
proof -
  assume a: "x < of_int n - 1 / 2"
  then have "x < of_int n" by linarith
  then have f: "\<lfloor>x\<rfloor> < n" by (simp add: floor_less_iff)
  show ?thesis
  proof (cases "\<lfloor>x\<rfloor> = n - 1")
    case True
    with a have "x - of_int \<lfloor>x\<rfloor> < 1 / 2" by simp
    with f show ?thesis by (simp add: round_half_even_def Let_def)
  next
    case False
    with f have "\<lfloor>x\<rfloor> + 1 < n" by simp
    then show ?thesis by (simp add: round_half_even_def Let_def)
  qed
qed

lemma round_half_even_le: "x \<le> of_int n \<Longrightarrow> round_half_even x \<le> n"
proof (cases "x = of_int n")
  case True
  then show ?thesis by (simp add: round_half_even_def)
next
  case False
  assume "x \<le> of_int n"
  with False have "x < of_int n" by simp
  then have "\<lfloor>x\<rfloor> < n" by (simp add: floor_less_iff)
  then show ?thesis by (simp add: round_half_even_def Let_def)
qed

lemma ilog2_bounds:
  assumes "0 < a" and "0 < b"
  shows "pow2 (ilog2 a b) \<le> of_int a / of_int b" and "of_int a / of_int b < pow2 (ilog2 a b + 1)"
proof -
  define d where "d = bitlen a - bitlen b"
  have la: "1 \<le> bitlen a" and lb: "1 \<le> bitlen b"
    using assms bitlen_eq_zero_iff [of a] bitlen_eq_zero_iff [of b] bitlen_nonneg [of a] bitlen_nonneg [of b]
    by linarith+
  from bitlen_bounds [OF assms(1)]
  have "(of_int (2 ^ nat (bitlen a - 1)) :: rat) \<le> of_int a" "(of_int a :: rat) < of_int (2 ^ nat (bitlen a))"
    by (simp_all only: of_int_le_iff of_int_less_iff)
  with la have a: "pow2 (bitlen a - 1) \<le> of_int a" "of_int a < pow2 (bitlen a)"
    by (simp_all only: pow2_nat [of "bitlen a - 1"] pow2_nat [of "bitlen a"])
  from bitlen_bounds [OF assms(2)]
  have "(of_int (2 ^ nat (bitlen b - 1)) :: rat) \<le> of_int b" "(of_int b :: rat) < of_int (2 ^ nat (bitlen b))"
    by (simp_all only: of_int_le_iff of_int_less_iff)
  with lb have b: "pow2 (bitlen b - 1) \<le> of_int b" "of_int b < pow2 (bitlen b)"
    by (simp_all only: pow2_nat [of "bitlen b - 1"] pow2_nat [of "bitlen b"])
  have bpos: "(0::rat) < of_int b" using assms by simp
  have "pow2 (d - 1) * of_int b < pow2 (d - 1) * pow2 (bitlen b)"
    using b(2) pow2_pos by simp
  also have "\<dots> = pow2 (bitlen a - 1)"
    by (simp add: d_def pow2_add [symmetric])
  finally have lo: "pow2 (d - 1) * of_int b < of_int a" using a(1) by simp
  have "of_int a < pow2 (d + 1) * pow2 (bitlen b - 1)"
    using a(2) by (simp add: d_def pow2_add [symmetric])
  also have "\<dots> \<le> pow2 (d + 1) * of_int b"
    using b(1) pow2_pos by simp
  finally have hi: "of_int a < pow2 (d + 1) * of_int b" .
  show "pow2 (ilog2 a b) \<le> of_int a / of_int b"
    using lo bpos by (auto simp: ilog2_def d_def [symmetric] Let_def pos_le_divide_eq)
  show "of_int a / of_int b < pow2 (ilog2 a b + 1)"
    using hi bpos by (auto simp: ilog2_def d_def [symmetric] Let_def pos_divide_less_eq not_le)
qed

lemma ilog2_less:
  assumes "0 < a" and "0 < b" and "of_int a / of_int b < pow2 k"
  shows "ilog2 a b < k"
proof -
  have "pow2 (ilog2 a b) < pow2 k"
    using ilog2_bounds(1) [OF assms(1,2)] assms(3) by simp
  then show ?thesis by (rule pow2_less_imp)
qed

lemma scaled_int:
  assumes "e \<le> 0"
  shows "of_int n / pow2 e = of_int (n * 2 ^ nat (- e))"
proof -
  have "pow2 (- e) = of_int (2 ^ nat (- e))"
    using assms by (simp add: pow2_nat)
  then have "1 / pow2 e = of_int (2 ^ nat (- e))"
    by (simp only: pow2_inverse)
  moreover have "of_int n / pow2 e = of_int n * (1 / pow2 e)"
    by simp
  ultimately show ?thesis
    by (simp only: of_int_mult)
qed

lemma round_lower:
  assumes "e \<le> 0" and "of_int n \<le> x"
  shows "of_int n \<le> of_int (round_half_even (x / pow2 e)) * pow2 e"
proof -
  have "of_int n / pow2 e \<le> x / pow2 e"
    using assms(2) pow2_pos [of e] by (simp add: divide_right_mono)
  then have "n * 2 ^ nat (- e) \<le> round_half_even (x / pow2 e)"
    by (simp only: scaled_int [OF assms(1)] round_half_even_ge)
  then have "(of_int (n * 2 ^ nat (- e)) :: rat) \<le> of_int (round_half_even (x / pow2 e))"
    by (simp only: of_int_le_iff)
  then have "of_int n / pow2 e \<le> of_int (round_half_even (x / pow2 e))"
    by (simp only: scaled_int [OF assms(1)])
  then show ?thesis
    using pow2_pos [of e] by (simp add: pos_divide_le_eq)
qed

lemma round_upper:
  assumes "e \<le> 0" and "x < of_int n - pow2 e / 2"
  shows "of_int (round_half_even (x / pow2 e)) * pow2 e < of_int n"
proof -
  have "x / pow2 e < (of_int n - pow2 e / 2) / pow2 e"
    using assms(2) pow2_pos [of e] by (simp add: divide_strict_right_mono)
  also have "\<dots> = of_int n / pow2 e - 1 / 2"
    using pow2_pos [of e] by (simp add: diff_divide_distrib)
  finally have "x / pow2 e < of_int (n * 2 ^ nat (- e)) - 1 / 2"
    by (simp only: scaled_int [OF assms(1)])
  then have "round_half_even (x / pow2 e) < n * 2 ^ nat (- e)"
    by (rule round_half_even_less)
  then have "(of_int (round_half_even (x / pow2 e)) :: rat) < of_int (n * 2 ^ nat (- e))"
    by (simp only: of_int_less_iff)
  then have "of_int (round_half_even (x / pow2 e)) < of_int n / pow2 e"
    by (simp only: scaled_int [OF assms(1)])
  then show ?thesis
    using pow2_pos [of e] by (simp add: pos_less_divide_eq)
qed

lemma double_exponent_ge: "ilog2 a b - 52 \<le> double_exponent a b"
  by (simp add: double_exponent_def)

lemma double_exponent_nonpos:
  assumes "0 < a" and "0 < b" and "of_int a / of_int b < pow2 53"
  shows "double_exponent a b \<le> 0"
  using ilog2_less [OF assms] by (simp add: double_exponent_def)

lemma double_significand_bounds:
  assumes "0 < a" and "0 < b"
  shows "0 \<le> double_significand a b" and "double_significand a b \<le> 2 ^ 53"
proof -
  let ?e = "double_exponent a b"
  let ?x = "(of_int a / of_int b :: rat)"
  have "0 \<le> ?x / pow2 ?e"
    using assms pow2_pos [of ?e] by simp
  then have "(of_int 0 :: rat) \<le> ?x / pow2 ?e" by simp
  then show "0 \<le> double_significand a b"
    unfolding double_significand_def by (rule round_half_even_ge)
  have "?x < pow2 (ilog2 a b + 1)"
    by (rule ilog2_bounds [OF assms])
  also have "\<dots> \<le> pow2 (53 + ?e)"
    using double_exponent_ge [of a b] by (intro pow2_mono) simp
  also have "\<dots> = pow2 53 * pow2 ?e"
    by (rule pow2_add)
  finally have "?x / pow2 ?e < pow2 53"
    by (simp only: pos_divide_less_eq [OF pow2_pos])
  then have "?x / pow2 ?e \<le> of_int (2 ^ 53)"
    by (simp add: pow2_def)
  then show "double_significand a b \<le> 2 ^ 53"
    unfolding double_significand_def by (rule round_half_even_le)
qed

lemma py_truediv_pos:
  assumes "0 < a" and "0 < b" and "double_exponent a b \<le> 970"
  shows "py_truediv a b = Inr (of_int (double_significand a b) * pow2 (double_exponent a b))"
proof -
  have "double_significand a b < 2 ^ nat 54"
    using double_significand_bounds(2) [OF assms(1,2)] by simp
  then have "bitlen (double_significand a b) \<le> 54"
    by (simp only: bitlen_le_iff_power) simp
  with assms show ?thesis
    by (simp add: py_truediv_def Let_def)
qed

lemma py_truediv_neg:
  assumes "a < 0" and "0 < b" and "double_exponent (- a) b \<le> 970"
  shows "py_truediv a b = Inr (- (of_int (double_significand (- a) b) * pow2 (double_exponent (- a) b)))"
proof -
  have "double_significand (- a) b < 2 ^ nat 54"
    using double_significand_bounds(2) [of "- a" b] assms by simp
  then have "bitlen (double_significand (- a) b) \<le> 54"
    by (simp only: bitlen_le_iff_power) simp
  with assms show ?thesis
    by (simp add: py_truediv_def Let_def)
qed

lemma less_pow2_53: "(a::int) < 2 ^ 53 \<Longrightarrow> (of_int a :: rat) < pow2 53"
proof -
  assume "a < 2 ^ 53"
  then have "(of_int a :: rat) < of_int (2 ^ 53)" by (simp only: of_int_less_iff)
  then show ?thesis by (simp add: pow2_def)
qed

lemma succ_le_div_mult: "0 < b \<Longrightarrow> (a::int) + 1 \<le> (a div b + 1) * b"
proof -
  assume b: "0 < b"
  have "a = a div b * b + a mod b" by simp
  moreover have "a mod b < b" using b by simp
  ultimately have "a < a div b * b + b" by linarith
  then show ?thesis by (simp add: distrib_right)
qed

lemma pow2_52_cancel: "pow2 e * pow2 52 * c < 2 * pow2 52 \<Longrightarrow> pow2 e * c < 2"
proof -
  assume "pow2 e * pow2 52 * c < 2 * pow2 52"
  then have "(pow2 e * c) * pow2 52 < 2 * pow2 52" by (simp only: mult.assoc mult.commute [of c])
  then show ?thesis using pow2_pos [of 52] by (simp only: mult_less_cancel_right_pos)
qed

lemma py_truediv_floor:
  assumes "0 \<le> a" and "0 < b" and "a < 2 ^ 53"
  shows "\<exists>q. py_truediv a b = Inr q \<and> py_int_of_float q = a div b"
proof (cases "a = 0")
  case True
  with assms show ?thesis by (simp add: py_truediv_def py_int_of_float_def)
next
  case False
  with assms have a: "0 < a" by simp
  let ?x = "(of_int a / of_int b :: rat)"
  let ?e = "double_exponent a b"
  let ?r = "(of_int (double_significand a b) * pow2 ?e :: rat)"
  let ?k = "a div b"
  have bpos: "(0::rat) < of_int b" using assms by simp
  have b1: "(1::rat) \<le> of_int b" using assms by simp
  have "?x \<le> of_int a"
    using a b1 bpos by (simp add: pos_divide_le_eq mult_le_cancel_left1)
  also have "\<dots> < pow2 53"
    using assms(3) by (rule less_pow2_53)
  finally have x53: "?x < pow2 53" .
  then have e0: "?e \<le> 0"
    by (rule double_exponent_nonpos [OF a assms(2)])
  then have q: "py_truediv a b = Inr ?r"
    by (intro py_truediv_pos [OF a assms(2)]) simp
  have k: "of_int ?k \<le> ?x" "?x < of_int (?k + 1)"
    using floor_divide_of_int_eq [of a b, where 'a = rat] floor_eq_iff [of ?x ?k]
    by simp_all
  have lower: "of_int ?k \<le> ?r"
    unfolding double_significand_def by (rule round_lower [OF e0 k(1)])
  have "?x < of_int (?k + 1) - pow2 ?e / 2"
  proof (cases "- 1074 \<le> ilog2 a b - 52")
    case True
    then have e: "?e = ilog2 a b - 52" by (simp add: double_exponent_def)
    have "pow2 (ilog2 a b) \<le> ?x" by (rule ilog2_bounds(1) [OF a assms(2)])
    then have "pow2 ?e * pow2 52 \<le> ?x"
      by (simp add: e pow2_add [symmetric])
    then have "pow2 ?e * pow2 52 * of_int b \<le> of_int a"
      using bpos by (simp add: pos_le_divide_eq)
    also have "\<dots> < pow2 (1 + 52)"
      using assms(3) by (simp only: less_pow2_53 one_add_one numeral_plus_numeral semiring_norm)
    also have "\<dots> = 2 * pow2 52"
      by (simp only: pow2_add) (simp add: pow2_def)
    finally have "pow2 ?e * of_int b < 2"
      by (rule pow2_52_cancel)
    then have h: "pow2 ?e / 2 < 1 / of_int b"
      using bpos by (simp add: pos_less_divide_eq mult.commute)
    have "a + 1 \<le> (?k + 1) * b"
      using assms(2) by (rule succ_le_div_mult)
    then have "(of_int (a + 1) :: rat) \<le> of_int ((?k + 1) * b)"
      by (simp only: of_int_le_iff)
    then have "?x + 1 / of_int b \<le> of_int (?k + 1)"
      using bpos by (simp add: field_simps)
    with h show ?thesis by linarith
  next
    case False
    then have e: "?e = - 1074" and p: "ilog2 a b + 1 \<le> - 1" by (simp_all add: double_exponent_def)
    have "?x < pow2 (ilog2 a b + 1)" by (rule ilog2_bounds(2) [OF a assms(2)])
    also have "\<dots> \<le> pow2 (- 1)" using p by (rule pow2_mono)
    finally have x: "?x < 1 / 2" by (simp add: pow2_numeral_neg)
    have "pow2 ?e \<le> pow2 (- 1)" unfolding e by (rule pow2_mono) simp
    then have h: "pow2 ?e / 2 \<le> 1 / 4" by (simp add: pow2_numeral_neg)
    have "(0::rat) \<le> of_int ?k"
      using a assms(2) by (simp add: pos_imp_zdiv_nonneg_iff)
    with x h show ?thesis by simp
  qed
  then have upper: "?r < of_int (?k + 1)"
    unfolding double_significand_def by (rule round_upper [OF e0])
  from lower upper have "\<lfloor>?r\<rfloor> = ?k"
    by (intro floor_unique) simp_all
  moreover have "0 \<le> ?r"
    using double_significand_bounds(1) [OF a assms(2)] pow2_pos [of ?e] by simp
  ultimately show ?thesis
    using q by (simp add: py_int_of_float_def)
qed

lemma pow2_48_bound: "(a::int) \<le> 86399999999999999999 \<Longrightarrow> (of_int a :: rat) / of_int (10 ^ 6) < pow2 48"
proof -
  assume "a \<le> 86399999999999999999"
  then have "(of_int a :: rat) \<le> of_int 86399999999999999999" by (simp only: of_int_le_iff)
  then show ?thesis by (simp add: pow2_def)
qed

lemma total_seconds_threshold:
  assumes "\<bar>us\<bar> \<le> 86399999999999999999"
  shows "\<exists>secs. total_seconds (Timedelta us) = Inr secs \<and> (180 \<le> secs \<longleftrightarrow> 180 * 10 ^ 6 \<le> us)"
proof -
  have b: "(0::int) < 10 ^ 6" by simp
  consider "us = 0" | "us < 0" | "0 < us" by linarith
  then show ?thesis
  proof cases
    case 1
    then show ?thesis by (simp add: total_seconds_def py_truediv_def)
  next
    case 2
    let ?e = "double_exponent (- us) (10 ^ 6)"
    let ?m = "double_significand (- us) (10 ^ 6)"
    from 2 have a: "0 < - us" by simp
    from assms 2 have "- us \<le> 86399999999999999999" by simp
    then have "(of_int (- us) :: rat) / of_int (10 ^ 6) < pow2 48" by (rule pow2_48_bound)
    then have "ilog2 (- us) (10 ^ 6) < 48" by (rule ilog2_less [OF a b])
    then have e: "?e \<le> 970" by (simp add: double_exponent_def)
    have q: "py_truediv us (10 ^ 6) = Inr (- (of_int ?m * pow2 ?e))"
      by (rule py_truediv_neg [OF 2 b e])
    have "(0::rat) \<le> of_int ?m * pow2 ?e"
      using double_significand_bounds(1) [OF a b] pow2_pos [of ?e] by simp
    then have "\<not> 180 \<le> - (of_int ?m * pow2 ?e)" by linarith
    with q 2 show ?thesis by (simp add: total_seconds_def)
  next
    case 3
    let ?x = "(of_int us :: rat) / of_int (10 ^ 6)"
    let ?e = "double_exponent us (10 ^ 6)"
    let ?m = "double_significand us (10 ^ 6)"
    from assms 3 have "us \<le> 86399999999999999999" by simp
    then have "?x < pow2 48" by (rule pow2_48_bound)
    then have p48: "ilog2 us (10 ^ 6) < 48" by (rule ilog2_less [OF 3 b])
    then have e0: "?e \<le> 0" by (simp add: double_exponent_def)
    then have q: "py_truediv us (10 ^ 6) = Inr (of_int ?m * pow2 ?e)"
      by (intro py_truediv_pos [OF 3 b]) simp
    have "180 \<le> of_int ?m * pow2 ?e \<longleftrightarrow> 180 * 10 ^ 6 \<le> us"
    proof (cases "180 * 10 ^ 6 \<le> us")
      case True
      then have "(of_int (180 * 10 ^ 6) :: rat) \<le> of_int us" by (simp only: of_int_le_iff)
      then have "of_int 180 \<le> ?x" by simp
      then have "of_int 180 \<le> of_int ?m * pow2 ?e"
        unfolding double_significand_def by (rule round_lower [OF e0])
      with True show ?thesis by simp
    next
      case False
      then have "us + 1 \<le> 180 * 10 ^ 6" by simp
      then have "(of_int (us + 1) :: rat) \<le> of_int (180 * 10 ^ 6)" by (simp only: of_int_le_iff)
      then have x: "?x \<le> 180 - 1 / 10 ^ 6" by simp
      from False have "(of_int us :: rat) < of_int (256 * 10 ^ 6)" by (simp only: of_int_less_iff) simp
      then have "?x < pow2 8" by (simp add: pow2_def)
      then have "ilog2 us (10 ^ 6) < 8" by (rule ilog2_less [OF 3 b])
      then have "?e \<le> - 45" by (simp add: double_exponent_def)
      then have "pow2 ?e \<le> pow2 (- 45)" by (rule pow2_mono)
      also have "\<dots> < 2 / 10 ^ 6" by (simp add: pow2_def)
      finally have "pow2 ?e / 2 < 1 / 10 ^ 6" by simp
      with x have "?x < of_int 180 - pow2 ?e / 2" by simp
      then have "of_int ?m * pow2 ?e < of_int 180"
        unfolding double_significand_def by (rule round_upper [OF e0])
      with False show ?thesis by simp
    qed
    with q show ?thesis by (simp add: total_seconds_def)
  qed
qed

lemma average_floor:
  assumes "xs \<noteq> []" and "0 \<le> sum_list xs" and "sum_list xs < 2 ^ 53"
  shows "average xs = Inr (sum_list xs div int (length xs))"
proof -
  from assms(1) have "0 < int (length xs)" by simp
  from py_truediv_floor [OF assms(2) this assms(3)] assms(1) show ?thesis
    by (auto simp: average_def)
qed

lemma sum_list_lower: "\<forall>x\<in>set xs. m \<le> x \<Longrightarrow> int (length xs) * m \<le> sum_list xs"
  by (induction xs) (auto simp: distrib_right)

lemma sum_list_upper: "\<forall>x\<in>set xs. x \<le> m \<Longrightarrow> sum_list xs \<le> int (length xs) * m"
  by (induction xs) (auto simp: distrib_right)

lemma mean_between:
  assumes "xs \<noteq> []"
  shows "Min (set xs) \<le> sum_list xs div int (length xs)"
    and "sum_list xs div int (length xs) \<le> Max (set xs)"
proof -
  from assms have n: "0 < int (length xs)" by simp
  have "int (length xs) * Min (set xs) \<le> sum_list xs"
    by (rule sum_list_lower) simp
  then have "(int (length xs) * Min (set xs)) div int (length xs) \<le> sum_list xs div int (length xs)"
    using n by (rule zdiv_mono1)
  then show "Min (set xs) \<le> sum_list xs div int (length xs)"
    using n by simp
  have "sum_list xs \<le> int (length xs) * Max (set xs)"
    by (rule sum_list_upper) simp
  then have "sum_list xs div int (length xs) \<le> (int (length xs) * Max (set xs)) div int (length xs)"
    using n by (rule zdiv_mono1)
  then show "sum_list xs div int (length xs) \<le> Max (set xs)"
    using n by simp
qed

section \<open>The concrete run, evaluated\<close>

lemma main_demo_env: "main demo_env = Some (Inr (Some 4), demo_final)"
  by code_simp

lemma demo_records_run:
  "get_airtable_records demo_env initial_state =
     Some ([\<lparr>rec_id = ''recA'', channel_id_field = Some ''UCa''\<rparr>,
            \<lparr>rec_id = ''recB'', channel_id_field = Some ''UCb''\<rparr>,
            \<lparr>rec_id = ''recC'', channel_id_field = None\<rparr>,
            \<lparr>rec_id = ''recD'', channel_id_field = Some ''UCd''\<rparr>,
            \<lparr>rec_id = ''recE'', channel_id_field = Some ''UCe''\<rparr>],
           \<lparr>error_count = 0, trace = [(ListRecords None, True), (ListRecords (Some ''o2''), True)]\<rparr>)"
  by code_simp

lemma demo_missing_channel: "channels_get demo_env (trace initial_state) ''UCz'' = Ok []"
  by code_simp

lemma demo_uploads_d:
  "get_uploads_playlist_id demo_env ''UCd'' initial_state =
     (Inr (Some ''UUd''), \<lparr>error_count = 0, trace = [(GetChannel ''UCd'', True)]\<rparr>)"
  by code_simp

lemma demo_recent_d:
  "get_recent_video_ids demo_env ''UUd'' \<lparr>error_count = 0, trace = [(GetChannel ''UCd'', True)]\<rparr> =
     Some (Inr [''d1'', ''d2''],
           \<lparr>error_count = 0,
            trace = [(GetChannel ''UCd'', True), (GetPlaylistItems ''UUd'' None, True)]\<rparr>)"
  by code_simp

lemma demo_batch_d:
  "get_video_stats_batch demo_env [''d1'', ''d2'']
     \<lparr>error_count = 0, trace = [(GetChannel ''UCd'', True), (GetPlaylistItems ''UUd'' None, True)]\<rparr> =
     ([], \<lparr>error_count = 1,
           trace = [(GetChannel ''UCd'', True), (GetPlaylistItems ''UUd'' None, True),
                    (GetVideos [''d1'', ''d2''], False)]\<rparr>)"
  by code_simp

lemma demo_uploads_e:
  "get_uploads_playlist_id demo_env ''UCe'' initial_state =
     (Inr (Some ''UUe''), \<lparr>error_count = 0, trace = [(GetChannel ''UCe'', True)]\<rparr>)"
  by code_simp

lemma demo_recent_e:
  "get_recent_video_ids demo_env ''UUe'' \<lparr>error_count = 0, trace = [(GetChannel ''UCe'', True)]\<rparr> =
     Some (Inr [''e1''],
           \<lparr>error_count = 0,
            trace = [(GetChannel ''UCe'', True), (GetPlaylistItems ''UUe'' None, True)]\<rparr>)"
  by code_simp

lemma demo_batch_e:
  "get_video_stats_batch demo_env [''e1'']
     \<lparr>error_count = 0, trace = [(GetChannel ''UCe'', True), (GetPlaylistItems ''UUe'' None, True)]\<rparr> =
     ([video ''PT2M59S'' (Some ''5000'') (Some ''50'') (Some ''5'')],
      \<lparr>error_count = 0,
       trace = [(GetChannel ''UCe'', True), (GetPlaylistItems ''UUe'' None, True),
                (GetVideos [''e1''], True)]\<rparr>)"
  by code_simp

lemma demo_collect_e:
  "collect_longform demo_env [video ''PT2M59S'' (Some ''5000'') (Some ''50'') (Some ''5'')] [] [] [] =
     Inr ([], [], [])"
  by code_simp

lemma demo_collect_a:
  "collect_longform demo_env
     [video ''PT3M'' (Some ''100'') (Some ''10'') (Some ''2''),
      video ''PT2M59S'' (Some ''5000'') (Some ''50'') (Some ''5''),
      video ''PT3M'' (Some ''300'') None (Some ''4'')] [] [] [] =
   Inr ([100, 300], [10, 0], [2, 4])"
  by code_simp

lemma demo_longform: "is_longform demo_env ''PT3M'' = Inr True"
  by code_simp

lemma demo_parsers:
  "(\<forall>x. parse_duration demo_env x \<noteq> Inl KeyError) \<and> (\<forall>x. int_of_str demo_env x \<noteq> Inl KeyError)"
proof -
  have "decimal x acc \<noteq> Inl KeyError" for x acc
    by (induction x arbitrary: acc) (simp_all add: Let_def)
  then show ?thesis
    by (simp add: demo_env_def demo_duration_def demo_int_def)
qed

section \<open>The claims\<close>

text \<open>
  C1, as the script has it. The average is a float division followed by truncation: for
  a single item with \<open>2 ^ 53 + 1\<close> views the float is \<open>2 ^ 53\<close>, which is
  neither the floor of the mean nor within the minimum and maximum.
\<close>

theorem average_not_floor_counterexample:
  "average [9007199254740993] = Inr 9007199254740992 \<and>
   sum_list [9007199254740993] div int (length [9007199254740993::int]) = 9007199254740993 \<and>
   \<not> Min (set [9007199254740993]) \<le> (9007199254740992::int) \<and>
   aggregate demo_env [video ''PT3M'' (Some ''9007199254740993'') (Some ''1'') (Some ''1'')] =
     Inr (9007199254740992, 1, 1)"
proof -
  have "average [9007199254740993] = Inr 9007199254740992"
    by code_simp
  moreover have "aggregate demo_env [video ''PT3M'' (Some ''9007199254740993'') (Some ''1'') (Some ''1'')] =
     Inr (9007199254740992, 1, 1)"
    by code_simp
  ultimately show ?thesis by simp
qed

text \<open>
  C1, amended. For a non-empty set of collected items whose three sums are non-negative
  and below \<open>2 ^ 53\<close>, each of the three aggregates is the floor of the sum divided
  by the number of items, and lies between the minimum and the maximum of its metric.
\<close>

theorem aggregates_are_floor_means:
  assumes "collect_longform w video_stats_list [] [] [] = Inr (views, likes, comments)"
    and "views \<noteq> []"
    and "exact_range views" and "exact_range likes" and "exact_range comments"
  shows "aggregate w video_stats_list = Inr (floor_mean views, floor_mean likes, floor_mean comments) \<and>
         Min (set views) \<le> floor_mean views \<and> floor_mean views \<le> Max (set views) \<and>
         Min (set likes) \<le> floor_mean likes \<and> floor_mean likes \<le> Max (set likes) \<and>
         Min (set comments) \<le> floor_mean comments \<and> floor_mean comments \<le> Max (set comments)"
proof -
  from collect_longform_lengths [OF assms(1)] assms(2)
  have ne: "likes \<noteq> []" "comments \<noteq> []" by auto
  have "average views = Inr (floor_mean views)" "average likes = Inr (floor_mean likes)"
    "average comments = Inr (floor_mean comments)"
    using assms(2-5) ne by (simp_all add: average_floor exact_range_def floor_mean_def)
  with assms(1) have "aggregate w video_stats_list =
      Inr (floor_mean views, floor_mean likes, floor_mean comments)"
    by (simp add: aggregate_def)
  with mean_between [OF assms(2)] mean_between [OF ne(1)] mean_between [OF ne(2)]
  show ?thesis by (simp add: floor_mean_def)
qed

theorem aggregates_are_floor_means_witness:
  "aggregate demo_env
     [video ''PT3M'' (Some ''100'') (Some ''10'') (Some ''2''),
      video ''PT2M59S'' (Some ''5000'') (Some ''50'') (Some ''5''),
      video ''PT3M'' (Some ''300'') None (Some ''4'')] = Inr (200, 5, 3) \<and>
   Min (set [100, 300]) \<le> (200::int) \<and> (200::int) \<le> Max (set [100, 300])"
proof -
  have "[100, 300] \<noteq> ([]::int list)" "exact_range [100, 300]" "exact_range [10, 0]"
    "exact_range [2, 4]"
    by (simp_all add: exact_range_def)
  from aggregates_are_floor_means [OF demo_collect_a this] show ?thesis
    by (simp add: floor_mean_def)
qed

text \<open>
  C2. When a subject record has a playlist and its set of qualifying long-form items is
  empty, because there is no recent item or because no item of the statistics is
  collected, the three fields written are zeros.
\<close>

theorem empty_subset_gives_zeros:
  assumes "channel_id_field record = Some channel_id" and "channel_id \<noteq> []"
    and "get_uploads_playlist_id w channel_id s = (Inr (Some playlist_id), s1)"
    and "playlist_id \<noteq> []"
    and "get_recent_video_ids w playlist_id s1 = Some (Inr video_ids, s2)"
    and "get_video_stats_batch w video_ids s2 = (video_stats_list, s3)"
    and "video_ids = [] \<or> collect_longform w video_stats_list [] [] [] = Inr ([], [], [])"
  shows "process_record w record updated_count s =
           Some (Inr (updated_count + 1),
                 update_airtable_record w (rec_id record) (0, 0, 0)
                   (if video_ids = [] then s2 else s3))"
proof (cases "video_ids = []")
  case True
  with process_record_no_recent [OF assms(1-4), of s2 updated_count] assms(5)
  show ?thesis by simp
next
  case False
  with assms(7) have "aggregate w video_stats_list = Inr (0, 0, 0)"
    by (simp add: aggregate_empty)
  with process_record_aggregate [OF assms(1-5) False assms(6) this, of updated_count] False
  show ?thesis by simp
qed

theorem empty_subset_gives_zeros_witness:
  "collect_longform demo_env [video ''PT2M59S'' (Some ''5000'') (Some ''50'') (Some ''5'')] [] [] [] =
     Inr ([], [], []) \<and>
   process_record demo_env \<lparr>rec_id = ''recE'', channel_id_field = Some ''UCe''\<rparr> 0 initial_state =
     Some (Inr 1,
           \<lparr>error_count = 0,
            trace = [(GetChannel ''UCe'', True), (GetPlaylistItems ''UUe'' None, True),
                     (GetVideos [''e1''], True), (PatchRecord ''recE'' (0, 0, 0), True)]\<rparr>)"
proof -
  have c: "channel_id_field \<lparr>rec_id = ''recE'', channel_id_field = Some ''UCe''\<rparr> = Some ''UCe''"
    and n: "''UCe'' \<noteq> []" and p: "''UUe'' \<noteq> []"
    by simp_all
  have e: "[''e1''] = [] \<or>
      collect_longform demo_env [video ''PT2M59S'' (Some ''5000'') (Some ''50'') (Some ''5'')] [] [] [] =
        Inr ([], [], [])"
    by (rule disjI2) (rule demo_collect_e)
  from empty_subset_gives_zeros [OF c n demo_uploads_e p demo_recent_e demo_batch_e e, of 0]
  show ?thesis
    using demo_collect_e
    by (simp add: update_airtable_record_attempt issued_def demo_env_def demo_patch_def)
qed

text \<open>
  C3. The recency filter stops at the first page that has items of which none is
  collected, and returns the identifiers collected before it; an empty page with a next
  page token does not stop it. On the list whose pages hold five recent items, three old
  items and then ten recent items, it returns the first five identifiers after two
  requests.
\<close>

theorem early_stop_on_stale_page:
  "(playlist_items_get w (trace s) playlist_id (if truthy next_page then next_page else None) = Ok data \<and>
    pl_items data \<noteq> [] \<and>
    recent_in_page w (pl_items data) video_ids False = Inr (video_ids', False) \<longrightarrow>
      get_recent_video_ids_loop w playlist_id video_ids next_page s =
        Some (Inr video_ids,
              issued (GetPlaylistItems playlist_id
                (if truthy next_page then next_page else None)) True s)) \<and>
   (playlist_items_get w (trace s) playlist_id (if truthy next_page then next_page else None) = Ok data \<and>
    pl_items data = [] \<and> truthy (nextPageToken data) \<longrightarrow>
      get_recent_video_ids_loop w playlist_id video_ids next_page s =
        get_recent_video_ids_loop w playlist_id video_ids (nextPageToken data)
          (issued (GetPlaylistItems playlist_id
             (if truthy next_page then next_page else None)) True s)) \<and>
   recent_in_page demo_env (map new_item [''a1'', ''a2'', ''a3'', ''a4'', ''a5'']) [] False =
     Inr ([''a1'', ''a2'', ''a3'', ''a4'', ''a5''], True) \<and>
   recent_in_page demo_env (map old_item [''o1'', ''o2'', ''o3'']) [] False = Inr ([], False) \<and>
   recent_in_page demo_env
     (map new_item [''b1'', ''b2'', ''b3'', ''b4'', ''b5'', ''b6'', ''b7'', ''b8'', ''b9'', ''b10'']) [] False =
     Inr ([''b1'', ''b2'', ''b3'', ''b4'', ''b5'', ''b6'', ''b7'', ''b8'', ''b9'', ''b10''], True) \<and>
   get_recent_video_ids demo_env ''UUa'' initial_state =
     Some (Inr [''a1'', ''a2'', ''a3'', ''a4'', ''a5''],
           \<lparr>error_count = 0,
            trace = [(GetPlaylistItems ''UUa'' None, True),
                     (GetPlaylistItems ''UUa'' (Some ''p2''), True)]\<rparr>)"
proof (intro conjI impI)
  show "recent_in_page demo_env (map new_item [''a1'', ''a2'', ''a3'', ''a4'', ''a5'']) [] False =
     Inr ([''a1'', ''a2'', ''a3'', ''a4'', ''a5''], True)"
    by code_simp
  show "recent_in_page demo_env (map old_item [''o1'', ''o2'', ''o3'']) [] False = Inr ([], False)"
    by code_simp
  show "recent_in_page demo_env
     (map new_item [''b1'', ''b2'', ''b3'', ''b4'', ''b5'', ''b6'', ''b7'', ''b8'', ''b9'', ''b10'']) [] False =
     Inr ([''b1'', ''b2'', ''b3'', ''b4'', ''b5'', ''b6'', ''b7'', ''b8'', ''b9'', ''b10''], True)"
    by code_simp
  show "get_recent_video_ids demo_env ''UUa'' initial_state =
     Some (Inr [''a1'', ''a2'', ''a3'', ''a4'', ''a5''],
           \<lparr>error_count = 0,
            trace = [(GetPlaylistItems ''UUa'' None, True),
                     (GetPlaylistItems ''UUa'' (Some ''p2''), True)]\<rparr>)"
    by code_simp
qed (simp_all add: recent_loop_stops recent_loop_empty_page)

theorem early_stop_on_stale_page_witness:
  "get_recent_video_ids_loop demo_env ''UUa'' [''a1'', ''a2'', ''a3'', ''a4'', ''a5''] (Some ''p2'')
     \<lparr>error_count = 0, trace = [(GetPlaylistItems ''UUa'' None, True)]\<rparr> =
     Some (Inr [''a1'', ''a2'', ''a3'', ''a4'', ''a5''],
           \<lparr>error_count = 0,
            trace = [(GetPlaylistItems ''UUa'' None, True),
                     (GetPlaylistItems ''UUa'' (Some ''p2''), True)]\<rparr>) \<and>
   get_recent_video_ids_loop demo_env ''UUx'' [] None initial_state =
     get_recent_video_ids_loop demo_env ''UUx'' [] (Some ''n2'')
       \<lparr>error_count = 0, trace = [(GetPlaylistItems ''UUx'' None, True)]\<rparr> \<and>
   get_recent_video_ids_loop demo_env ''UUx'' [] (Some ''n2'')
       \<lparr>error_count = 0, trace = [(GetPlaylistItems ''UUx'' None, True)]\<rparr> =
     Some (Inr [''x1''],
           \<lparr>error_count = 0,
            trace = [(GetPlaylistItems ''UUx'' None, True),
                     (GetPlaylistItems ''UUx'' (Some ''n2''), True)]\<rparr>)"
proof -
  note a = early_stop_on_stale_page [where w = demo_env
      and s = "\<lparr>error_count = 0, trace = [(GetPlaylistItems ''UUa'' None, True)]\<rparr>"
      and playlist_id = "''UUa''" and next_page = "Some ''p2''"
      and data = "\<lparr>pl_items = map old_item [''o1'', ''o2'', ''o3''], nextPageToken = Some ''p3''\<rparr>"
      and video_ids = "[''a1'', ''a2'', ''a3'', ''a4'', ''a5'']"
      and video_ids' = "[''a1'', ''a2'', ''a3'', ''a4'', ''a5'']"]
  note b = early_stop_on_stale_page [where w = demo_env and s = initial_state
      and playlist_id = "''UUx''" and next_page = None
      and data = "\<lparr>pl_items = [], nextPageToken = Some ''n2''\<rparr>"
      and video_ids = "[]"]
  have ha: "playlist_items_get demo_env
        (trace \<lparr>error_count = 0, trace = [(GetPlaylistItems ''UUa'' None, True)]\<rparr>) ''UUa''
        (if truthy (Some ''p2'') then Some ''p2'' else None) =
      Ok \<lparr>pl_items = map old_item [''o1'', ''o2'', ''o3''], nextPageToken = Some ''p3''\<rparr>"
    "recent_in_page demo_env (map old_item [''o1'', ''o2'', ''o3''])
       [''a1'', ''a2'', ''a3'', ''a4'', ''a5''] False = Inr ([''a1'', ''a2'', ''a3'', ''a4'', ''a5''], False)"
    by code_simp+
  have hb: "playlist_items_get demo_env (trace initial_state) ''UUx''
        (if truthy None then None else None) = Ok \<lparr>pl_items = [], nextPageToken = Some ''n2''\<rparr>"
    "truthy (Some ''n2'')"
    by code_simp+
  have c: "get_recent_video_ids_loop demo_env ''UUx'' [] (Some ''n2'')
       \<lparr>error_count = 0, trace = [(GetPlaylistItems ''UUx'' None, True)]\<rparr> =
     Some (Inr [''x1''],
           \<lparr>error_count = 0,
            trace = [(GetPlaylistItems ''UUx'' None, True),
                     (GetPlaylistItems ''UUx'' (Some ''n2''), True)]\<rparr>)"
    by code_simp
  from a ha have 1: "get_recent_video_ids_loop demo_env ''UUa'' [''a1'', ''a2'', ''a3'', ''a4'', ''a5''] (Some ''p2'')
     \<lparr>error_count = 0, trace = [(GetPlaylistItems ''UUa'' None, True)]\<rparr> =
     Some (Inr [''a1'', ''a2'', ''a3'', ''a4'', ''a5''],
           \<lparr>error_count = 0,
            trace = [(GetPlaylistItems ''UUa'' None, True),
                     (GetPlaylistItems ''UUa'' (Some ''p2''), True)]\<rparr>)"
    by (simp add: issued_def truthy_def)
  from b hb have 2: "get_recent_video_ids_loop demo_env ''UUx'' [] None initial_state =
     get_recent_video_ids_loop demo_env ''UUx'' [] (Some ''n2'')
       \<lparr>error_count = 0, trace = [(GetPlaylistItems ''UUx'' None, True)]\<rparr>"
    by (simp add: issued_def truthy_def initial_state_def)
  from 1 2 c show ?thesis by simp
qed

text \<open>
  C4. Once the error counter has reached the threshold of 10, the loop over the subject
  records stops before the next record: it returns the count reached so far and leaves
  the state as it is, so no lookup and no write is issued for any remaining record.
\<close>

theorem error_budget_halts:
  assumes "10 \<le> error_count s"
  shows "main_loop w records updated_count s = Some (Inr updated_count, s)"
  using assms by (cases records) (simp_all add: ERROR_LIMIT_def)

theorem error_budget_halts_witness:
  "10 \<le> error_count \<lparr>error_count = 10, trace = []\<rparr> \<and>
   main_loop demo_env [\<lparr>rec_id = ''recA'', channel_id_field = Some ''UCa''\<rparr>] 3
     \<lparr>error_count = 10, trace = []\<rparr> = Some (Inr 3, \<lparr>error_count = 10, trace = []\<rparr>)"
  using error_budget_halts [of "\<lparr>error_count = 10, trace = []\<rparr>" demo_env
      "[\<lparr>rec_id = ''recA'', channel_id_field = Some ''UCa''\<rparr>]" 3]
  by simp

text \<open>
  C5. The error counter counts exactly the failed requests to the three YouTube
  endpoints: at the end of every run it equals the number of failed channel, playlist
  and video requests in the trace. An update call never changes it, fetching the records
  never changes it, and a channel lookup that succeeds with no matching item returns
  \<open>None\<close> without counting.
\<close>

theorem error_count_counts_youtube_failures:
  "(main w = Some (out, s) \<longrightarrow> error_count s = youtube_failures (trace s)) \<and>
   error_count (update_airtable_record w record_id fields_to_update s0) = error_count s0 \<and>
   (get_airtable_records w s0 = Some (records, s1) \<longrightarrow> error_count s1 = error_count s0) \<and>
   (channels_get w (trace s0) channel_id = Ok [] \<longrightarrow>
      get_uploads_playlist_id w channel_id s0 = (Inr None, issued (GetChannel channel_id) True s0))"
proof (intro conjI impI)
  assume "main w = Some (out, s)"
  then show "error_count s = youtube_failures (trace s)"
    using main_step by blast
next
  show "error_count (update_airtable_record w record_id fields_to_update s0) = error_count s0"
    by (simp add: update_airtable_record_attempt issued_def)
next
  assume "get_airtable_records w s0 = Some (records, s1)"
  then show "error_count s1 = error_count s0"
    using get_airtable_records_loop_error_count [of w "[]" None s0 "(records, s1)"]
    by (simp add: get_airtable_records_def)
next
  assume "channels_get w (trace s0) channel_id = Ok []"
  then show "get_uploads_playlist_id w channel_id s0 = (Inr None, issued (GetChannel channel_id) True s0)"
    by (simp add: get_uploads_playlist_id_def)
qed

theorem error_count_counts_youtube_failures_witness:
  "main demo_env = Some (Inr (Some 4), demo_final) \<and>
   error_count demo_final = youtube_failures (trace demo_final) \<and>
   youtube_failures (trace demo_final) = 2 \<and>
   (PatchRecord ''recB'' (0, 0, 0), False) \<in> set (trace demo_final) \<and>
   get_uploads_playlist_id demo_env ''UCz'' initial_state =
     (Inr None, issued (GetChannel ''UCz'') True initial_state)"
proof -
  note t = error_count_counts_youtube_failures [of demo_env "Inr (Some 4)" demo_final
      "''recB''" "(0, 0, 0)" initial_state
      "[\<lparr>rec_id = ''recA'', channel_id_field = Some ''UCa''\<rparr>,
            \<lparr>rec_id = ''recB'', channel_id_field = Some ''UCb''\<rparr>,
            \<lparr>rec_id = ''recC'', channel_id_field = None\<rparr>,
            \<lparr>rec_id = ''recD'', channel_id_field = Some ''UCd''\<rparr>,
            \<lparr>rec_id = ''recE'', channel_id_field = Some ''UCe''\<rparr>]"
      "\<lparr>error_count = 0, trace = [(ListRecords None, True), (ListRecords (Some ''o2''), True)]\<rparr>"
      "''UCz''"]
  have "youtube_failures (trace demo_final) = 2"
    by (simp add: demo_final_def youtube_failures_def)
  moreover have "(PatchRecord ''recB'' (0, 0, 0), False) \<in> set (trace demo_final)"
    by (simp add: demo_final_def)
  ultimately show ?thesis
    using t main_demo_env demo_records_run demo_missing_channel by simp
qed

text \<open>
  C6, as the script has it. A channel item without the uploads path raises KeyError out
  of the channel resolver and out of the loop body of the driver, and a duration that
  does not parse raises out of the long-form test and out of the aggregation.
\<close>

theorem exception_escapes_counterexample:
  "get_uploads_playlist_id demo_env ''UCx'' initial_state =
     (Inl KeyError, \<lparr>error_count = 0, trace = [(GetChannel ''UCx'', True)]\<rparr>) \<and>
   process_record demo_env \<lparr>rec_id = ''recX'', channel_id_field = Some ''UCx''\<rparr> 0 initial_state =
     Some (Inl KeyError, \<lparr>error_count = 0, trace = [(GetChannel ''UCx'', True)]\<rparr>) \<and>
   is_longform demo_env ''3 minutes'' = Inl ValueError \<and>
   aggregate demo_env [video ''3 minutes'' (Some ''100'') (Some ''10'') (Some ''2'')] = Inl ValueError"
  by code_simp

text \<open>
  C6, amended. A transport failure never leaves the component that meets it: the channel
  resolver returns \<open>None\<close>, the recency filter and the metrics batcher return what
  they have collected, the record source returns the records read so far and the record
  sink returns normally. A KeyError on an item of a page or of the statistics skips the
  item.
\<close>

theorem transport_failures_contained:
  "(channels_get w (trace s) channel_id = RequestException \<longrightarrow>
      get_uploads_playlist_id w channel_id s =
        (Inr None, count_error (issued (GetChannel channel_id) False s))) \<and>
   (playlist_items_get w (trace s) playlist_id (if truthy next_page then next_page else None) =
      RequestException \<longrightarrow>
      get_recent_video_ids_loop w playlist_id video_ids next_page s =
        Some (Inr video_ids,
              count_error (issued (GetPlaylistItems playlist_id
                (if truthy next_page then next_page else None)) False s))) \<and>
   (i < length video_ids \<and> videos_get w (trace s) (take 50 (drop i video_ids)) = RequestException \<longrightarrow>
      get_video_stats_batch_loop w video_ids i stats_data s =
        (stats_data, count_error (issued (GetVideos (take 50 (drop i video_ids))) False s))) \<and>
   (airtable_get w (trace s) (if truthy offset then offset else None) = RequestException \<longrightarrow>
      get_airtable_records_loop w records offset s =
        Some (records, issued (ListRecords (if truthy offset then offset else None)) False s)) \<and>
   (airtable_patch w (trace s) record_id fields_to_update = RequestException \<longrightarrow>
      update_airtable_record w record_id fields_to_update s =
        issued (PatchRecord record_id fields_to_update) False s) \<and>
   (recent_item w item = Inl KeyError \<longrightarrow>
      recent_in_page w (item # items) video_ids found = recent_in_page w items video_ids found) \<and>
   (longform_counts w vitem = Inl KeyError \<longrightarrow>
      collect_longform w (vitem # vitems) vs ls cs = collect_longform w vitems vs ls cs)"
  by (simp add: recent_loop_failed records_loop_failed batch_loop_failed
      get_uploads_playlist_id_def update_airtable_record_def)

theorem transport_failures_contained_witness:
  "get_uploads_playlist_id demo_env ''UCb'' initial_state =
     (Inr None, \<lparr>error_count = 1, trace = [(GetChannel ''UCb'', False)]\<rparr>) \<and>
   get_recent_video_ids_loop demo_env ''UUa'' [''d1'', ''d2''] (Some ''p9'') initial_state =
     Some (Inr [''d1'', ''d2''],
           \<lparr>error_count = 1, trace = [(GetPlaylistItems ''UUa'' (Some ''p9''), False)]\<rparr>) \<and>
   get_video_stats_batch_loop demo_env [''d1'', ''d2''] 0 [] initial_state =
     ([], \<lparr>error_count = 1, trace = [(GetVideos [''d1'', ''d2''], False)]\<rparr>) \<and>
   get_airtable_records_loop demo_env [] (Some ''o9'') initial_state =
     Some ([], \<lparr>error_count = 0, trace = [(ListRecords (Some ''o9''), False)]\<rparr>) \<and>
   update_airtable_record demo_env ''recB'' (0, 0, 0) initial_state =
     \<lparr>error_count = 0, trace = [(PatchRecord ''recB'' (0, 0, 0), False)]\<rparr> \<and>
   recent_in_page demo_env [\<lparr>pl_contentDetails = None\<rparr>, new_item ''a1''] [] False =
     Inr ([''a1''], True) \<and>
   collect_longform demo_env
     [\<lparr>v_contentDetails = None, statistics = None\<rparr>,
      video ''PT3M'' (Some ''100'') (Some ''10'') (Some ''2'')] [] [] [] = Inr ([100], [10], [2])"
proof -
  note t = transport_failures_contained [where w = demo_env and s = initial_state
      and channel_id = "''UCb''" and playlist_id = "''UUa''" and next_page = "Some ''p9''"
      and video_ids = "[''d1'', ''d2'']" and i = 0 and stats_data = "[]"
      and offset = "Some ''o9''" and records = "[]" and record_id = "''recB''"
      and fields_to_update = "(0, 0, 0)" and item = "\<lparr>pl_contentDetails = None\<rparr>"
      and items = "[new_item ''a1'']" and found = False
      and vitem = "\<lparr>v_contentDetails = None, statistics = None\<rparr>"
      and vitems = "[video ''PT3M'' (Some ''100'') (Some ''10'') (Some ''2'')]"
      and vs = "[]" and ls = "[]" and cs = "[]"]
  have h: "channels_get demo_env (trace initial_state) ''UCb'' = RequestException"
    "playlist_items_get demo_env (trace initial_state) ''UUa''
       (if truthy (Some ''p9'') then Some ''p9'' else None) = RequestException"
    "0 < length [''d1'', ''d2'']"
    "videos_get demo_env (trace initial_state) (take 50 (drop 0 [''d1'', ''d2''])) = RequestException"
    "airtable_get demo_env (trace initial_state) (if truthy (Some ''o9'') then Some ''o9'' else None) =
      RequestException"
    "airtable_patch demo_env (trace initial_state) ''recB'' (0, 0, 0) = RequestException"
    "recent_item demo_env \<lparr>pl_contentDetails = None\<rparr> = Inl KeyError"
    "longform_counts demo_env \<lparr>v_contentDetails = None, statistics = None\<rparr> = Inl KeyError"
    by code_simp+
  have r: "recent_in_page demo_env [new_item ''a1''] [] False = Inr ([''a1''], True)"
    "collect_longform demo_env [video ''PT3M'' (Some ''100'') (Some ''10'') (Some ''2'')] [] [] [] =
       Inr ([100], [10], [2])"
    by code_simp+
  from t h r show ?thesis
    by (simp add: initial_state_def issued_def count_error_def truthy_def)
qed

text \<open>
  C7. An update call returns normally whether the request succeeded or not, and changes
  nothing but the trace; the total that \<open>main\<close> reports is the number of update calls
  issued, successful or not.
\<close>

theorem reported_total_counts_update_attempts:
  "update_airtable_record w record_id fields_to_update s0 =
     issued (PatchRecord record_id fields_to_update)
       (airtable_patch w (trace s0) record_id fields_to_update \<noteq> RequestException) s0 \<and>
   (main w = Some (Inr (Some reported), s) \<longrightarrow> reported = update_attempts (trace s))"
  using main_step [of w "Inr (Some reported)" s]
  by (simp add: update_airtable_record_attempt)

theorem reported_total_counts_update_attempts_witness:
  "main demo_env = Some (Inr (Some 4), demo_final) \<and>
   update_attempts (trace demo_final) = 4 \<and>
   (PatchRecord ''recB'' (0, 0, 0), False) \<in> set (trace demo_final)"
proof -
  have "(PatchRecord ''recB'' (0, 0, 0), False) \<in> set (trace demo_final)"
    by (simp add: demo_final_def)
  then show ?thesis
  using reported_total_counts_update_attempts [of demo_env "''recB''" "(0, 0, 0)" initial_state 4 demo_final]
    main_demo_env by simp
qed

text \<open>
  C8. When the duration parses to a timedelta (any value a Python timedelta can hold, in
  microseconds), the long-form test is true exactly when the duration is at least 180
  seconds: the float division of \<open>total_seconds\<close> does not move the threshold.
\<close>

theorem is_longform_threshold:
  assumes "parse_duration w iso_duration = Inr (Timedelta us)"
    and "\<bar>us\<bar> \<le> 86399999999999999999"
  shows "is_longform w iso_duration = Inr (180 * 10 ^ 6 \<le> us)"
  using total_seconds_threshold [OF assms(2)] assms(1)
  by (auto simp: is_longform_def)

theorem is_longform_threshold_witness:
  "parse_duration demo_env ''PT3M'' = Inr (Timedelta 180000000) \<and>
   is_longform demo_env ''PT3M'' = Inr True \<and>
   parse_duration demo_env ''PT2M59S'' = Inr (Timedelta 179000000) \<and>
   is_longform demo_env ''PT2M59S'' = Inr False"
proof -
  have a: "parse_duration demo_env ''PT3M'' = Inr (Timedelta 180000000)"
    and b: "parse_duration demo_env ''PT2M59S'' = Inr (Timedelta 179000000)"
    by (simp_all add: demo_env_def demo_duration_def)
  have c: "\<bar>180000000::int\<bar> \<le> 86399999999999999999" "\<bar>179000000::int\<bar> \<le> 86399999999999999999"
    by simp_all
  from is_longform_threshold [OF a c(1)] is_longform_threshold [OF b c(2)] a b
  show ?thesis by simp
qed

text \<open>
  C9. A subject record with at least one recent video identifier whose statistics come
  back empty, for instance because the first batch request failed, is still updated: the
  three fields are written as zeros and the record is counted. The update request is the
  one issued for a channel with no long-form item.
\<close>

theorem empty_batch_writes_zeros:
  assumes "channel_id_field record = Some channel_id" and "channel_id \<noteq> []"
    and "get_uploads_playlist_id w channel_id s = (Inr (Some playlist_id), s1)"
    and "playlist_id \<noteq> []"
    and "get_recent_video_ids w playlist_id s1 = Some (Inr video_ids, s2)"
    and "video_ids \<noteq> []"
    and "get_video_stats_batch w video_ids s2 = ([], s3)"
  shows "process_record w record updated_count s =
           Some (Inr (updated_count + 1),
                 issued (PatchRecord (rec_id record) (0, 0, 0))
                   (airtable_patch w (trace s3) (rec_id record) (0, 0, 0) \<noteq> RequestException) s3)"
proof -
  have "aggregate w [] = Inr (0, 0, 0)"
    by (rule aggregate_empty) simp
  from process_record_aggregate [OF assms this] show ?thesis
    by (simp add: update_airtable_record_attempt)
qed

theorem empty_batch_writes_zeros_witness:
  "get_video_stats_batch demo_env [''d1'', ''d2'']
     \<lparr>error_count = 0, trace = [(GetChannel ''UCd'', True), (GetPlaylistItems ''UUd'' None, True)]\<rparr> =
     ([], \<lparr>error_count = 1,
           trace = [(GetChannel ''UCd'', True), (GetPlaylistItems ''UUd'' None, True),
                    (GetVideos [''d1'', ''d2''], False)]\<rparr>) \<and>
   process_record demo_env \<lparr>rec_id = ''recD'', channel_id_field = Some ''UCd''\<rparr> 0 initial_state =
     Some (Inr 1,
           \<lparr>error_count = 1,
            trace = [(GetChannel ''UCd'', True), (GetPlaylistItems ''UUd'' None, True),
                     (GetVideos [''d1'', ''d2''], False),
                     (PatchRecord ''recD'' (0, 0, 0), True)]\<rparr>)"
proof -
  have "channel_id_field \<lparr>rec_id = ''recD'', channel_id_field = Some ''UCd''\<rparr> = Some ''UCd''"
    and "''UCd'' \<noteq> []" and "''UUd'' \<noteq> []" and "[''d1'', ''d2''] \<noteq> []"
    by simp_all
  from empty_batch_writes_zeros [OF this(1,2) demo_uploads_d this(3) demo_recent_d this(4) demo_batch_d, of 0]
  show ?thesis
    using demo_batch_d by (simp add: issued_def demo_env_def demo_patch_def)
qed

text \<open>
  C10. A long-form item whose statistics are present is collected even when a count is
  missing, the missing count being 0. With parsers that never raise KeyError, an item is
  skipped by the KeyError handler exactly when its duration is missing or when it is
  long-form and has no statistics.
\<close>

theorem missing_count_is_zero:
  "(v_contentDetails item = Some cd \<and> duration cd = Some d \<and> is_longform w d = Inr True \<and>
    statistics item = Some st \<and> count_of w (viewCount st) = Inr v \<and>
    count_of w (likeCount st) = Inr l \<and> count_of w (commentCount st) = Inr c \<longrightarrow>
      collect_longform w (item # items) vs ls cs =
        collect_longform w items (vs @ [v]) (ls @ [l]) (cs @ [c]) \<and>
      (viewCount st = None \<longrightarrow> v = 0) \<and> (likeCount st = None \<longrightarrow> l = 0) \<and>
      (commentCount st = None \<longrightarrow> c = 0)) \<and>
   ((\<forall>x. parse_duration w x \<noteq> Inl KeyError) \<and> (\<forall>x. int_of_str w x \<noteq> Inl KeyError) \<longrightarrow>
      (longform_counts w item = Inl KeyError \<longleftrightarrow>
         (case v_contentDetails item of
            None \<Rightarrow> True
          | Some cd' \<Rightarrow>
              (case duration cd' of
                 None \<Rightarrow> True
               | Some d' \<Rightarrow> is_longform w d' = Inr True \<and> statistics item = None))))"
proof (intro conjI impI)
  assume a: "v_contentDetails item = Some cd \<and> duration cd = Some d \<and> is_longform w d = Inr True \<and>
    statistics item = Some st \<and> count_of w (viewCount st) = Inr v \<and>
    count_of w (likeCount st) = Inr l \<and> count_of w (commentCount st) = Inr c"
  then have "longform_counts w item = Inr (Some (v, l, c))"
    by (simp add: longform_counts_def)
  then show "collect_longform w (item # items) vs ls cs =
        collect_longform w items (vs @ [v]) (ls @ [l]) (cs @ [c])"
    by simp
  from a show "viewCount st = None \<Longrightarrow> v = 0" by (simp add: count_of_def)
  from a show "likeCount st = None \<Longrightarrow> l = 0" by (simp add: count_of_def)
  from a show "commentCount st = None \<Longrightarrow> c = 0" by (simp add: count_of_def)
next
  assume p: "(\<forall>x. parse_duration w x \<noteq> Inl KeyError) \<and> (\<forall>x. int_of_str w x \<noteq> Inl KeyError)"
  then have l: "\<And>d. is_longform w d \<noteq> Inl KeyError" and c: "\<And>f. count_of w f \<noteq> Inl KeyError"
    by (simp_all add: is_longform_not_KeyError count_of_not_KeyError)
  show "longform_counts w item = Inl KeyError \<longleftrightarrow>
         (case v_contentDetails item of
            None \<Rightarrow> True
          | Some cd' \<Rightarrow>
              (case duration cd' of
                 None \<Rightarrow> True
               | Some d' \<Rightarrow> is_longform w d' = Inr True \<and> statistics item = None))"
    using l c
    by (auto simp: longform_counts_def split: option.splits sum.splits bool.splits)
qed

theorem missing_count_is_zero_witness:
  "collect_longform demo_env [video ''PT3M'' (Some ''300'') None (Some ''4'')] [100] [10] [2] =
     Inr ([100, 300], [10, 0], [2, 4]) \<and>
   longform_counts demo_env \<lparr>v_contentDetails = Some \<lparr>duration = Some ''PT3M''\<rparr>, statistics = None\<rparr> =
     Inl KeyError \<and>
   longform_counts demo_env (video ''PT3M'' (Some ''300'') None (Some ''4'')) \<noteq> Inl KeyError"
proof -
  note t = missing_count_is_zero [of "video ''PT3M'' (Some ''300'') None (Some ''4'')"
      "\<lparr>duration = Some ''PT3M''\<rparr>" "''PT3M''" demo_env
      "\<lparr>viewCount = Some ''300'', likeCount = None, commentCount = Some ''4''\<rparr>" 300 0 4
      "[]" "[100]" "[10]" "[2]"]
  note u = missing_count_is_zero [of
      "\<lparr>v_contentDetails = Some \<lparr>duration = Some ''PT3M''\<rparr>, statistics = None\<rparr>"
      "\<lparr>duration = Some ''PT3M''\<rparr>" "''PT3M''" demo_env
      "\<lparr>viewCount = Some ''300'', likeCount = None, commentCount = Some ''4''\<rparr>" 300 0 4
      "[]" "[100]" "[10]" "[2]"]
  have c: "count_of demo_env (Some ''300'') = Inr 300" "count_of demo_env None = Inr 0"
    "count_of demo_env (Some ''4'') = Inr 4"
    by code_simp+
  from t u c demo_longform demo_parsers show ?thesis
    by (simp add: video_def)
qed

end
